theory Spec2Isabelle
  imports Main
begin

section \<open>Values of the host language\<close>

text \<open>
  Payloads, server bodies and error fields are untyped (\<open>any\<close>) in the client.  They are
  modelled as JSON values; \<open>undefined\<close> is \<open>None\<close> of \<open>json option\<close>.  Numbers are
  restricted to integers (milliseconds, status codes, counters).
\<close>

datatype json =
    JNull
  | JBool bool
  | JNum int
  | JStr string
  | JArr "json list"
  | JObj "(string \<times> json) list"

text \<open>ECMAScript truthiness: \<open>undefined\<close>, \<open>null\<close>, \<open>false\<close>, \<open>0\<close> and the empty string are falsy.\<close>

fun truthy :: "json option \<Rightarrow> bool" where
  "truthy None = False"
| "truthy (Some JNull) = False"
| "truthy (Some (JBool b)) = b"
| "truthy (Some (JNum n)) = (n \<noteq> 0)"
| "truthy (Some (JStr s)) = (s \<noteq> [])"
| "truthy (Some (JArr xs)) = True"
| "truthy (Some (JObj kvs)) = True"

text \<open>\<open>a || b\<close>: the left operand when it is truthy, the right operand otherwise.\<close>

definition js_or :: "json option \<Rightarrow> json option \<Rightarrow> json option" where
  "js_or a b = (if truthy a then a else b)"

text \<open>
  \<open>v?.name\<close> for the member names the client reads (\<open>message\<close>, \<open>code\<close>, \<open>details\<close>,
  \<open>access\<close>): \<open>undefined\<close> unless \<open>v\<close> is an object that has the member.
\<close>

fun js_member :: "json option \<Rightarrow> string \<Rightarrow> json option" where
  "js_member (Some (JObj kvs)) name = map_of kvs name"
| "js_member v name = None"

section \<open>Request cache (class RequestCache)\<close>

text \<open>Source: \<open>src/unnamed/part_004\<close>, lines 276 to 312.  Times are milliseconds.\<close>

record cache_item =
  data :: "json option"
  timestamp :: int
  ttl :: int

type_synonym request_cache = "string \<Rightarrow> cache_item option"

definition default_ttl :: int where
  "default_ttl = 5 * 60 * 1000"

text \<open>\<open>set(key, data, ttl = 5 * 60 * 1000)\<close>; \<open>now\<close> is the value of \<open>Date.now()\<close>.\<close>

definition RequestCache_set ::
  "int \<Rightarrow> string \<Rightarrow> json option \<Rightarrow> int option \<Rightarrow> request_cache \<Rightarrow> request_cache" where
  "RequestCache_set now key d ttl_arg c =
     c(key \<mapsto> \<lparr>data = d, timestamp = now,
                 ttl = (case ttl_arg of None \<Rightarrow> default_ttl | Some t \<Rightarrow> t)\<rparr>)"

text \<open>\<open>get(key)\<close>: the returned value and the cache afterwards; \<open>null\<close> is \<open>Some JNull\<close>.\<close>

definition RequestCache_get ::
  "int \<Rightarrow> string \<Rightarrow> request_cache \<Rightarrow> json option \<times> request_cache" where
  "RequestCache_get now key c =
     (case c key of
        None \<Rightarrow> (Some JNull, c)
      | Some item \<Rightarrow>
          if now - timestamp item > ttl item then (Some JNull, c(key := None))
          else (data item, c))"

definition RequestCache_clear :: "request_cache \<Rightarrow> request_cache" where
  "RequestCache_clear c = Map.empty"

definition RequestCache_delete :: "string \<Rightarrow> request_cache \<Rightarrow> request_cache" where
  "RequestCache_delete key c = c(key := None)"

section \<open>Configuration (storageKeys, apiEndpoints)\<close>

text \<open>Source: \<open>src/unnamed/part_006\<close>.\<close>

definition storageKeys_accessToken :: string where
  "storageKeys_accessToken = ''kb_access_token''"

definition storageKeys_refreshToken :: string where
  "storageKeys_refreshToken = ''kb_refresh_token''"

definition storageKeys_user :: string where
  "storageKeys_user = ''kb_user''"

definition apiEndpoints_auth_refresh :: string where
  "apiEndpoints_auth_refresh = ''/api/v1/auth/token/refresh/''"

section \<open>Requests, responses, errors\<close>

text \<open>
  The request configuration (AxiosRequestConfig, extended by the cached service with
  \<open>cache\<close> and \<open>ttl\<close>).  \<open>cfg_retry\<close> is the \<open>_retry\<close> mark the response interceptor sets.
\<close>

record request =
  url :: string
  http_method :: string
  params :: "json option"
  body :: "json option"
  headers :: "(string \<times> string) list"
  cfg_retry :: bool
  cfg_cache :: "bool option"
  cfg_ttl :: "int option"

record response =
  status :: int
  resp_data :: "json option"

text \<open>An error object as the interceptors read it: \<open>config\<close>, \<open>response\<close>, \<open>message\<close>, \<open>code\<close>.\<close>

record js_error =
  err_config :: "request option"
  err_response :: "response option"
  err_message :: "json option"
  err_code :: "json option"

text \<open>The normalized error (interface ApiError).\<close>

record api_error =
  message :: "json option"
  code :: "json option"
  details :: "json option"

text \<open>What a caller's \<open>catch\<close> receives.\<close>

datatype rejection =
    ApiError api_error
  | TypeError
  | Error string

datatype event =
    Dispatch request
  | RefreshPost string
  | ConsoleError string

text \<open>
  The browser state the client reads and writes: \<open>localStorage\<close>, \<open>window.location.href\<close>,
  the module's \<open>requestCache\<close>, and the trace of network calls issued (\<open>Dispatch\<close> for a
  request sent through the instance, \<open>RefreshPost\<close> for the interceptor's \<open>axios.post\<close> to
  the refresh endpoint) and of \<open>console.error\<close> calls.
\<close>

record world =
  localStorage :: "string \<Rightarrow> string option"
  location_href :: string
  cache :: request_cache
  trace :: "event list"

text \<open>
  The environment: the network (as a function of the calls issued so far and of the
  request), and the host functions whose results the client only passes on.
  \<open>jwt_exp token\<close> stands for \<open>JSON.parse(atob(token.split('.')[1])).exp\<close>: \<open>None\<close>
  where the expression throws, \<open>Some None\<close> where \<open>exp * 1000\<close> is not a number, and the
  number of seconds otherwise.
\<close>

record env =
  adapter :: "event list \<Rightarrow> request \<Rightarrow> js_error + response"
  refresh_endpoint :: "event list \<Rightarrow> string \<Rightarrow> js_error + json option"
  ToString :: "json option \<Rightarrow> string"
  JSON_parse :: "string \<Rightarrow> json option"
  JSON_stringify :: "json \<Rightarrow> string"
  generateRequestId :: "event list \<Rightarrow> string"
  jwt_exp :: "string \<Rightarrow> int option option"

definition set_header :: "string \<Rightarrow> string \<Rightarrow> (string \<times> string) list \<Rightarrow> (string \<times> string) list" where
  "set_header name v hs = (name, v) # filter (\<lambda>h. fst h \<noteq> name) hs"

text \<open>A string read from \<open>localStorage\<close> is truthy when it is there and not empty.\<close>

fun truthy_item :: "string option \<Rightarrow> bool" where
  "truthy_item None = False"
| "truthy_item (Some s) = (s \<noteq> [])"

text \<open>The fallback message of the response interceptor, as UTF-8 bytes.\<close>

definition request_failed :: string where
  "request_failed =
     [CHR 0xE8, CHR 0xAF, CHR 0xB7, CHR 0xE6, CHR 0xB1, CHR 0x82,
      CHR 0xE5, CHR 0xA4, CHR 0xB1, CHR 0xE8, CHR 0xB4, CHR 0xA5]"

section \<open>The interceptors of createApiInstance\<close>

text \<open>
  Source: \<open>src/unnamed/part_004\<close>, lines 6 to 111.
  The development-mode \<open>console.log\<close> calls of both interceptors are left out; apart from
  them the fulfilled side of the response interceptor returns the response unchanged.
  The browser is assumed (\<open>window\<close> and \<open>localStorage\<close> exist).
\<close>

text \<open>Request interceptor, fulfilled side: Authorization and X-Request-ID headers.\<close>

definition request_fulfilled :: "env \<Rightarrow> request \<Rightarrow> world \<Rightarrow> request" where
  "request_fulfilled env config w =
     (let config1 =
            (case localStorage w storageKeys_accessToken of
               None \<Rightarrow> config
             | Some token \<Rightarrow>
                 if token \<noteq> []
                 then config\<lparr>headers := set_header ''Authorization'' (''Bearer '' @ token) (headers config)\<rparr>
                 else config)
      in config1\<lparr>headers := set_header ''X-Request-ID'' (generateRequestId env (trace w)) (headers config1)\<rparr>)"

text \<open>Request interceptor, rejected side: logs and rejects with the error unchanged.\<close>

definition request_rejected :: "js_error \<Rightarrow> world \<Rightarrow> (js_error + request) \<times> world" where
  "request_rejected error w = (Inl error, w\<lparr>trace := trace w @ [ConsoleError ''[API Request Error]'']\<rparr>)"

text \<open>The transport: the adapter's outcome; an error it raises carries the request's config.\<close>

definition dispatchRequest :: "env \<Rightarrow> request \<Rightarrow> event list \<Rightarrow> js_error + response" where
  "dispatchRequest env config history =
     (case adapter env history config of
        Inl error \<Rightarrow> Inl (error\<lparr>err_config := Some config\<rparr>)
      | Inr r \<Rightarrow> Inr r)"

text \<open>\<open>error.response?.data\<close>: the body the server sent, if any.\<close>

definition server_payload :: "js_error \<Rightarrow> json option" where
  "server_payload error = (case err_response error of None \<Rightarrow> None | Some r \<Rightarrow> resp_data r)"

text \<open>Response interceptor, the construction of \<open>apiError\<close>.\<close>

definition apiError_of :: "js_error \<Rightarrow> api_error" where
  "apiError_of error =
     \<lparr>message = js_or (js_or (js_member (server_payload error) ''message'') (err_message error))
                       (Some (JStr request_failed)),
      code = js_or (js_member (server_payload error) ''code'') (err_code error),
      details = js_or (js_member (server_payload error) ''details'') (server_payload error)\<rparr>"

definition reject_apiError :: "js_error \<Rightarrow> world \<Rightarrow> rejection \<times> world" where
  "reject_apiError error w =
     (ApiError (apiError_of error), w\<lparr>trace := trace w @ [ConsoleError ''[API Response Error]'']\<rparr>)"

text \<open>
  Response interceptor, rejected side.  The handler is an async function with one
  \<open>await\<close> (the refresh call); it is modelled as its two synchronous parts.
  \<open>response_rejected_begin\<close> runs up to the \<open>await\<close>: it either settles the request
  or issues the refresh call and suspends.
\<close>

datatype pending =
    Settled rejection
  | AwaitRefresh request string

definition settle_apiError :: "js_error \<Rightarrow> world \<Rightarrow> pending \<times> world" where
  "settle_apiError error w = (case reject_apiError error w of (r, w1) \<Rightarrow> (Settled r, w1))"

definition response_rejected_begin :: "js_error \<Rightarrow> world \<Rightarrow> pending \<times> world" where
  "response_rejected_begin error w =
     (if map_option status (err_response error) = Some 401 then
        (case err_config error of
           None \<Rightarrow> (Settled TypeError, w)
         | Some originalRequest \<Rightarrow>
             if \<not> cfg_retry originalRequest then
               (case localStorage w storageKeys_refreshToken of
                  None \<Rightarrow> settle_apiError error w
                | Some refreshToken \<Rightarrow>
                    if refreshToken \<noteq> [] then
                      (AwaitRefresh (originalRequest\<lparr>cfg_retry := True\<rparr>) refreshToken,
                       w\<lparr>trace := trace w @ [RefreshPost refreshToken]\<rparr>)
                    else settle_apiError error w)
             else settle_apiError error w)
      else settle_apiError error w)"

text \<open>
  \<open>response_rejected_resume\<close> runs when the refresh call has settled.  The call counts as
  failed when it rejects or when its \<open>response.data\<close> cannot be destructured (\<open>undefined\<close>
  or \<open>null\<close>): the \<open>catch\<close> branch then clears the three keys, redirects, and the handler
  rejects with the \<open>apiError\<close> of the original error.  Otherwise the new access token is
  stored and the original request is replayed; the replay is returned, not awaited, so
  its rejection is not caught here.  The replay is a call of the instance with the marked
  configuration (the instance keeps unknown members such as \<open>_retry\<close> when it merges a
  configuration with its defaults).
\<close>

datatype resumed =
    Replay request
  | Finished rejection

definition refreshed_data :: "js_error + json option \<Rightarrow> json option" where
  "refreshed_data outcome =
     (case outcome of
        Inl e \<Rightarrow> None
      | Inr None \<Rightarrow> None
      | Inr (Some d) \<Rightarrow> if d = JNull then None else Some d)"

definition clear_credentials :: "(string \<Rightarrow> string option) \<Rightarrow> (string \<Rightarrow> string option)" where
  "clear_credentials store =
     store(storageKeys_accessToken := None, storageKeys_refreshToken := None, storageKeys_user := None)"

definition response_rejected_resume ::
  "env \<Rightarrow> js_error + json option \<Rightarrow> request \<Rightarrow> js_error \<Rightarrow> world \<Rightarrow> resumed \<times> world" where
  "response_rejected_resume env outcome originalRequest error w =
     (case refreshed_data outcome of
        None \<Rightarrow>
          (case reject_apiError error
                  (w\<lparr>localStorage := clear_credentials (localStorage w), location_href := ''/auth/login''\<rparr>)
           of (r, w1) \<Rightarrow> (Finished r, w1))
      | Some d \<Rightarrow>
          (let access = js_member (Some d) ''access'' in
           (Replay (originalRequest\<lparr>headers :=
                      set_header ''Authorization'' (''Bearer '' @ ToString env access) (headers originalRequest)\<rparr>),
            w\<lparr>localStorage := (localStorage w)(storageKeys_accessToken \<mapsto> ToString env access)\<rparr>)))"

text \<open>The promise chain of one call of the instance, from the request interceptor on.\<close>

definition request_stage :: "env \<Rightarrow> js_error + request \<Rightarrow> world \<Rightarrow> (js_error + request) \<times> world" where
  "request_stage env input w =
     (case input of
        Inr config \<Rightarrow> (Inr (request_fulfilled env config w), w)
      | Inl error \<Rightarrow> request_rejected error w)"

definition dispatch_stage :: "env \<Rightarrow> (js_error + request) \<times> world \<Rightarrow> (js_error + response) \<times> world" where
  "dispatch_stage env s =
     (case s of
        (Inr config, w) \<Rightarrow>
          (dispatchRequest env config (trace w @ [Dispatch config]), w\<lparr>trace := trace w @ [Dispatch config]\<rparr>)
      | (Inl error, w) \<Rightarrow> (Inl error, w))"

text \<open>
  A replay happens only for a request not yet marked, and the replayed request is marked:
  this is what bounds the recursion of the chain.
\<close>

lemma begin_AwaitRefresh:
  assumes "response_rejected_begin error w = (AwaitRefresh originalRequest refreshToken, w')"
  shows "cfg_retry originalRequest"
    and "\<exists>c. err_config error = Some c \<and> \<not> cfg_retry c \<and> originalRequest = c\<lparr>cfg_retry := True\<rparr>"
    and "map_option status (err_response error) = Some 401"
    and "localStorage w storageKeys_refreshToken = Some refreshToken" and "refreshToken \<noteq> []"
    and "w' = w\<lparr>trace := trace w @ [RefreshPost refreshToken]\<rparr>"
  using assms
  by (auto simp: response_rejected_begin_def settle_apiError_def reject_apiError_def
           split: if_splits option.splits)

lemma resume_Replay:
  assumes "response_rejected_resume env outcome originalRequest error w = (Replay req, w')"
  shows "cfg_retry req = cfg_retry originalRequest"
    and "\<exists>d. refreshed_data outcome = Some d \<and>
           w' = w\<lparr>localStorage := (localStorage w)(storageKeys_accessToken \<mapsto>
                   ToString env (js_member (Some d) ''access''))\<rparr>"
  using assms
  by (auto simp: response_rejected_resume_def reject_apiError_def Let_def split: option.splits)

lemma dispatch_stage_error_config:
  assumes "dispatch_stage env (request_stage env (Inr c) w) = (Inl error, w')"
  shows "\<exists>c'. err_config error = Some c' \<and> cfg_retry c' = cfg_retry c"
  using assms
  by (auto simp: dispatch_stage_def request_stage_def dispatchRequest_def
                 request_fulfilled_def Let_def split: sum.splits if_splits option.splits)

lemma replay_measure:
  assumes "(Inl error, w2) = dispatch_stage env (request_stage env input w)"
    and "(AwaitRefresh originalRequest refreshToken, w3) = response_rejected_begin error w2"
    and "(Replay req, w4) = response_rejected_resume env outcome originalRequest error w3"
  shows "cfg_retry req \<and> (case input of Inl e \<Rightarrow> True | Inr c \<Rightarrow> \<not> cfg_retry c)"
proof -
  have b: "response_rejected_begin error w2 = (AwaitRefresh originalRequest refreshToken, w3)"
    using assms(2) by simp
  have r: "response_rejected_resume env outcome originalRequest error w3 = (Replay req, w4)"
    using assms(3) by simp
  have "cfg_retry req"
    using begin_AwaitRefresh(1)[OF b] resume_Replay(1)[OF r] by simp
  moreover have "\<not> cfg_retry c" if "input = Inr c" for c
    using dispatch_stage_error_config[of env c w error w2] begin_AwaitRefresh(2)[OF b] assms(1) that
    by auto
  ultimately show ?thesis by (auto split: sum.splits)
qed

function interceptor_chain :: "env \<Rightarrow> js_error + request \<Rightarrow> world \<Rightarrow> (rejection + response) \<times> world" where
  "interceptor_chain env input w =
     (case dispatch_stage env (request_stage env input w) of
        (Inr r, w2) \<Rightarrow> (Inr r, w2)
      | (Inl error, w2) \<Rightarrow>
          (case response_rejected_begin error w2 of
             (Settled r, w3) \<Rightarrow> (Inl r, w3)
           | (AwaitRefresh originalRequest refreshToken, w3) \<Rightarrow>
               (case response_rejected_resume env (refresh_endpoint env (trace w3) refreshToken)
                       originalRequest error w3 of
                  (Finished r, w4) \<Rightarrow> (Inl r, w4)
                | (Replay req, w4) \<Rightarrow> interceptor_chain env (Inr req) w4)))"
  by pat_completeness auto
termination
  by (relation "measure (\<lambda>(env, input, w). case input of Inl e \<Rightarrow> 1 | Inr c \<Rightarrow> if cfg_retry c then 0 else (1::nat))")
     (auto dest!: replay_measure split: sum.splits)

declare interceptor_chain.simps [simp del]

text \<open>Calling the instance with a configuration.\<close>

definition api :: "env \<Rightarrow> request \<Rightarrow> world \<Rightarrow> (rejection + response) \<times> world" where
  "api env config w = interceptor_chain env (Inr config) w"

section \<open>class ApiService\<close>

text \<open>Source: \<open>src/unnamed/part_004\<close>, lines 122 to 271.\<close>

text \<open>The defaults of the instance (\<open>axios.create\<close>), used where a caller passes no config.\<close>

definition default_config :: request where
  "default_config =
     \<lparr>url = [], http_method = ''get'', params = None, body = None,
      headers = [(''Content-Type'', ''application/json'')],
      cfg_retry = False, cfg_cache = None, cfg_ttl = None\<rparr>"

definition config_or_default :: "request option \<Rightarrow> request" where
  "config_or_default config = (case config of None \<Rightarrow> default_config | Some c \<Rightarrow> c)"

text \<open>\<open>return response.data\<close> after the awaited call.\<close>

definition response_data :: "(rejection + response) \<times> world \<Rightarrow> (rejection + json option) \<times> world" where
  "response_data res =
     (case res of
        (Inl r, w) \<Rightarrow> (Inl r, w)
      | (Inr response, w) \<Rightarrow> (Inr (resp_data response), w))"

definition ApiService_get :: "env \<Rightarrow> string \<Rightarrow> request option \<Rightarrow> world \<Rightarrow> (rejection + json option) \<times> world" where
  "ApiService_get env u config w =
     response_data (api env ((config_or_default config)\<lparr>url := u, http_method := ''get''\<rparr>) w)"

definition ApiService_post ::
  "env \<Rightarrow> string \<Rightarrow> json option \<Rightarrow> request option \<Rightarrow> world \<Rightarrow> (rejection + json option) \<times> world" where
  "ApiService_post env u d config w =
     response_data (api env ((config_or_default config)\<lparr>url := u, http_method := ''post'', body := d\<rparr>) w)"

subsection \<open>batch\<close>

text \<open>
  \<open>requests.map((request) => request())\<close> invokes the operations in list order.  An
  invocation either throws, which ends the \<open>map\<close> (the operations after it are never
  invoked, and \<open>batch\<close>, an async function, rejects with what was thrown), or returns a
  promise, which settles as fulfilled or rejected (\<open>Some\<close>) or never settles (\<open>None\<close>).
  \<open>await Promise.allSettled\<close> gives the settled results once every promise has settled,
  and never returns otherwise (\<open>those\<close> of the promises).  The \<open>map\<close> over the results
  logs and throws at the first rejected one, which ends that \<open>map\<close>.

  A run of \<open>batch\<close> is recorded as the indices of the operations invoked, the index and
  reason of each \<open>console.error\<close> call, and the outcome (\<open>None\<close> when \<open>batch\<close> never
  settles).
\<close>

datatype ('a, 'e) settled =
    fulfilled 'a
  | rejected 'e

datatype ('a, 'e) invocation =
    throws 'e
  | promise "('a, 'e) settled option"

record ('a, 'e) batch_run =
  batch_started :: "nat list"
  batch_logged :: "(nat \<times> 'e) list"
  batch_outcome :: "('e + 'a list) option"

fun invoke_each ::
  "nat \<Rightarrow> (unit \<Rightarrow> ('a, 'e) invocation) list \<Rightarrow> nat list \<times> ('e + ('a, 'e) settled option list)" where
  "invoke_each index [] = ([], Inr [])"
| "invoke_each index (request # requests) =
     (case request () of
        throws e \<Rightarrow> ([index], Inl e)
      | promise p \<Rightarrow>
          (case invoke_each (Suc index) requests of
             (started, Inl e) \<Rightarrow> (index # started, Inl e)
           | (started, Inr ps) \<Rightarrow> (index # started, Inr (p # ps))))"

fun batch_results :: "nat \<Rightarrow> ('a, 'e) settled list \<Rightarrow> ('e + 'a list) \<times> (nat \<times> 'e) list" where
  "batch_results index [] = (Inr [], [])"
| "batch_results index (fulfilled v # results) =
     (case batch_results (Suc index) results of
        (Inr vs, log) \<Rightarrow> (Inr (v # vs), log)
      | (Inl reason, log) \<Rightarrow> (Inl reason, log))"
| "batch_results index (rejected reason # results) = (Inl reason, [(index, reason)])"

definition batch :: "(unit \<Rightarrow> ('a, 'e) invocation) list \<Rightarrow> ('a, 'e) batch_run" where
  "batch requests =
     (case invoke_each 0 requests of
        (started, Inl e) \<Rightarrow> \<lparr>batch_started = started, batch_logged = [], batch_outcome = Some (Inl e)\<rparr>
      | (started, Inr promises) \<Rightarrow>
          (case those promises of
             None \<Rightarrow> \<lparr>batch_started = started, batch_logged = [], batch_outcome = None\<rparr>
           | Some results \<Rightarrow>
               (case batch_results 0 results of
                  (res, log) \<Rightarrow> \<lparr>batch_started = started, batch_logged = log, batch_outcome = Some res\<rparr>)))"

subsection \<open>retry\<close>

text \<open>
  \<open>request i\<close> is the outcome of the invocation made in iteration \<open>i\<close> of the loop (the
  loop invokes the operation once per iteration).  The trace records each invocation and
  each \<open>setTimeout\<close> delay; \<open>Inl None\<close> is \<open>throw lastError\<close> with \<open>lastError\<close> still
  \<open>undefined\<close>.
\<close>

datatype retry_event =
    Invoke nat
  | Wait int

function retry_loop ::
  "(nat \<Rightarrow> 'e + 'a) \<Rightarrow> int \<Rightarrow> int \<Rightarrow> nat \<Rightarrow> 'e option \<Rightarrow> retry_event list
   \<Rightarrow> ('e option + 'a) \<times> retry_event list" where
  "retry_loop request maxRetries delay i lastError tr =
     (if int i \<le> maxRetries then
        (case request i of
           Inr v \<Rightarrow> (Inr v, tr @ [Invoke i])
         | Inl error \<Rightarrow>
             retry_loop request maxRetries delay (Suc i) (Some error)
               (if int i < maxRetries then tr @ [Invoke i, Wait (delay * 2 ^ i)]
                else tr @ [Invoke i]))
      else (Inl lastError, tr))"
  by pat_completeness auto
termination
  by (relation "measure (\<lambda>(request, maxRetries, delay, i, lastError, tr). nat (maxRetries + 1 - int i))")
     auto

definition retry :: "(nat \<Rightarrow> 'e + 'a) \<Rightarrow> int \<Rightarrow> int \<Rightarrow> ('e option + 'a) \<times> retry_event list" where
  "retry request maxRetries delay = retry_loop request maxRetries delay 0 None []"

section \<open>cachedApiService\<close>

text \<open>Source: \<open>src/unnamed/part_004\<close>, lines 315 to 346.\<close>

definition or_empty_object :: "json option \<Rightarrow> json" where
  "or_empty_object v = (case v of None \<Rightarrow> JObj [] | Some p \<Rightarrow> if truthy (Some p) then p else JObj [])"

definition cacheKey_of :: "env \<Rightarrow> string \<Rightarrow> request option \<Rightarrow> string" where
  "cacheKey_of env u config =
     u @ ''_'' @ JSON_stringify env (or_empty_object (case config of None \<Rightarrow> None | Some c \<Rightarrow> params c))"

text \<open>\<open>config?.cache !== false\<close>\<close>

definition cache_enabled :: "request option \<Rightarrow> bool" where
  "cache_enabled config = (case config of None \<Rightarrow> True | Some c \<Rightarrow> cfg_cache c \<noteq> Some False)"

definition ttl_of :: "request option \<Rightarrow> int option" where
  "ttl_of config = (case config of None \<Rightarrow> None | Some c \<Rightarrow> cfg_ttl c)"

text \<open>
  \<open>cachedApiService.get\<close>; \<open>now1\<close> is \<open>Date.now()\<close> at the lookup and \<open>now2\<close> at the store
  after the awaited network call.
\<close>

definition cachedApiService_get ::
  "env \<Rightarrow> int \<Rightarrow> int \<Rightarrow> string \<Rightarrow> request option \<Rightarrow> world \<Rightarrow> (rejection + json option) \<times> world" where
  "cachedApiService_get env now1 now2 u config w =
     (let cacheKey = cacheKey_of env u config;
          looked = (if cache_enabled config
                    then (case RequestCache_get now1 cacheKey (cache w) of (v, c) \<Rightarrow> (v, w\<lparr>cache := c\<rparr>))
                    else (None, w))
      in if cache_enabled config \<and> truthy (fst looked) then (Inr (fst looked), snd looked)
         else
           (case ApiService_get env u config (snd looked) of
              (Inl r, w2) \<Rightarrow> (Inl r, w2)
            | (Inr d, w2) \<Rightarrow>
                if cache_enabled config
                then (Inr d, w2\<lparr>cache := RequestCache_set now2 cacheKey d (ttl_of config) (cache w2)\<rparr>)
                else (Inr d, w2)))"

section \<open>class AuthService\<close>

text \<open>Source: \<open>src/unnamed/part_005\<close>, lines 5 to 255.\<close>

definition nullish :: "json option \<Rightarrow> bool" where
  "nullish v = (v = None \<or> v = Some JNull)"

text \<open>
  \<open>refreshToken()\<close>: throws when no refresh token is stored; \<open>response.access\<close> of an
  \<open>undefined\<close> or \<open>null\<close> response body throws a TypeError.
\<close>

definition AuthService_refreshToken :: "env \<Rightarrow> world \<Rightarrow> (rejection + json option) \<times> world" where
  "AuthService_refreshToken env w =
     (case localStorage w storageKeys_refreshToken of
        None \<Rightarrow> (Inl (Error ''No refresh token available''), w)
      | Some refreshToken \<Rightarrow>
          if refreshToken = [] then (Inl (Error ''No refresh token available''), w)
          else
            (case ApiService_post env apiEndpoints_auth_refresh
                    (Some (JObj [(''refresh'', JStr refreshToken)])) None w of
               (Inl r, w1) \<Rightarrow> (Inl r, w1)
             | (Inr response, w1) \<Rightarrow>
                 if nullish response then (Inl TypeError, w1)
                 else (Inr (js_member response ''access''),
                       w1\<lparr>localStorage := (localStorage w1)(storageKeys_accessToken \<mapsto>
                             ToString env (js_member response ''access''))\<rparr>)))"

definition AuthService_isAuthenticated :: "world \<Rightarrow> bool" where
  "AuthService_isAuthenticated w =
     (truthy_item (localStorage w storageKeys_accessToken) \<and> truthy_item (localStorage w storageKeys_user))"

text \<open>\<open>getLocalUser()\<close>: \<open>JSON_parse\<close> gives \<open>None\<close> where \<open>JSON.parse\<close> throws.\<close>

definition AuthService_getLocalUser :: "env \<Rightarrow> world \<Rightarrow> json \<times> world" where
  "AuthService_getLocalUser env w =
     (case localStorage w storageKeys_user of
        None \<Rightarrow> (JNull, w)
      | Some userStr \<Rightarrow>
          if userStr = [] then (JNull, w)
          else (case JSON_parse env userStr of
                  Some u \<Rightarrow> (u, w)
                | None \<Rightarrow> (JNull, w\<lparr>trace := trace w @ [ConsoleError ''Error parsing user from localStorage:'']\<rparr>)))"

definition AuthService_clearLocalStorage :: "world \<Rightarrow> world" where
  "AuthService_clearLocalStorage w = w\<lparr>localStorage := clear_credentials (localStorage w)\<rparr>"

text \<open>
  \<open>isTokenExpiringSoon()\<close>, with \<open>now\<close> the value of \<open>Date.now()\<close>: true without a token
  and when the token cannot be decoded; a comparison with a non-number is false.
\<close>

definition AuthService_isTokenExpiringSoon :: "env \<Rightarrow> int \<Rightarrow> world \<Rightarrow> bool \<times> world" where
  "AuthService_isTokenExpiringSoon env now w =
     (case localStorage w storageKeys_accessToken of
        None \<Rightarrow> (True, w)
      | Some token \<Rightarrow>
          if token = [] then (True, w)
          else (case jwt_exp env token of
                  None \<Rightarrow> (True, w\<lparr>trace := trace w @ [ConsoleError ''Error parsing token:'']\<rparr>)
                | Some None \<Rightarrow> (False, w)
                | Some (Some exp) \<Rightarrow> (exp * 1000 - now < 5 * 60 * 1000, w)))"

text \<open>
  \<open>autoRefreshToken()\<close>: the only caller of \<open>refreshToken()\<close>; a failure is caught, logged,
  and answered by \<open>clearLocalStorage()\<close> and the redirect.
\<close>

definition AuthService_autoRefreshToken :: "env \<Rightarrow> int \<Rightarrow> world \<Rightarrow> world" where
  "AuthService_autoRefreshToken env now w =
     (case AuthService_isTokenExpiringSoon env now w of
        (False, w0) \<Rightarrow> w0
      | (True, w0) \<Rightarrow>
          (case AuthService_refreshToken env w0 of
             (Inr a, w1) \<Rightarrow> w1
           | (Inl error, w1) \<Rightarrow>
               (AuthService_clearLocalStorage
                  (w1\<lparr>trace := trace w1 @ [ConsoleError ''Auto refresh token failed:'']\<rparr>))
               \<lparr>location_href := ''/auth/login''\<rparr>))"

section \<open>class AuthStateManager\<close>

text \<open>Source: \<open>src/unnamed/part_005\<close>, lines 261 to 318.\<close>

text \<open>
  A listener is modelled by whether its call with \<open>(isAuthenticated, user)\<close> throws.
  \<open>notifyStateChange\<close> reads the state once and calls every listener in order; a throw is
  caught and logged.
\<close>

type_synonym listener = "bool \<Rightarrow> json \<Rightarrow> bool"

datatype notification = Notified nat bool json

fun notify_each :: "nat \<Rightarrow> listener list \<Rightarrow> bool \<Rightarrow> json \<Rightarrow> world \<Rightarrow> notification list \<times> world" where
  "notify_each i [] isAuthenticated user w = ([], w)"
| "notify_each i (l # ls) isAuthenticated user w =
     (case notify_each (Suc i) ls isAuthenticated user
             (if l isAuthenticated user
              then w\<lparr>trace := trace w @ [ConsoleError ''Error in auth state listener:'']\<rparr>
              else w) of
        (ns, w') \<Rightarrow> (Notified i isAuthenticated user # ns, w'))"

definition AuthStateManager_notifyStateChange ::
  "env \<Rightarrow> listener list \<Rightarrow> world \<Rightarrow> notification list \<times> world" where
  "AuthStateManager_notifyStateChange env listeners w =
     (case AuthService_getLocalUser env w of
        (user, w1) \<Rightarrow> notify_each 0 listeners (AuthService_isAuthenticated w) user w1)"

section \<open>Several requests failing before any refresh call settles\<close>

text \<open>
  The event loop runs the synchronous part of each rejected handler to its \<open>await\<close>
  before any continuation: for requests whose 401 responses arrive before a refresh call
  has settled, the parts run one after the other on the same browser state.
\<close>

fun handlers_begin :: "js_error list \<Rightarrow> world \<Rightarrow> pending list \<times> world" where
  "handlers_begin [] w = ([], w)"
| "handlers_begin (error # errors) w =
     (case response_rejected_begin error w of
        (p, w1) \<Rightarrow> (case handlers_begin errors w1 of (ps, w2) \<Rightarrow> (p # ps, w2)))"

text \<open>
  The part of the handler after the \<open>await\<close>, for a handler left in state \<open>p\<close> by the
  first part: it runs when the handler's own refresh call has settled, with the outcome
  of that call, and either rejects the request or replays it.  (The replay is taken as
  one step: a marked request reads \<open>localStorage\<close> only when it is dispatched.)
\<close>

definition resume_handler ::
  "env \<Rightarrow> js_error + json option \<Rightarrow> js_error \<Rightarrow> pending \<Rightarrow> world \<Rightarrow> (rejection + response) \<times> world" where
  "resume_handler env outcome error p w =
     (case p of
        Settled r \<Rightarrow> (Inl r, w)
      | AwaitRefresh originalRequest refreshToken \<Rightarrow>
          (case response_rejected_resume env outcome originalRequest error w of
             (Finished r, w1) \<Rightarrow> (Inl r, w1)
           | (Replay req, w1) \<Rightarrow> api env req w1))"

text \<open>
  The refresh calls settle in some order; each entry of \<open>settled\<close> is a suspended handler
  with the error it handles and the outcome of its own refresh call.
\<close>

fun handlers_resume ::
  "env \<Rightarrow> (pending \<times> js_error \<times> (js_error + json option)) list \<Rightarrow> world
   \<Rightarrow> (rejection + response) list \<times> world" where
  "handlers_resume env [] w = ([], w)"
| "handlers_resume env ((p, error, outcome) # settled) w =
     (case resume_handler env outcome error p w of
        (res, w1) \<Rightarrow> (case handlers_resume env settled w1 of (ress, w2) \<Rightarrow> (res # ress, w2)))"

section \<open>Auxiliary notions for the statements\<close>

text \<open>Network calls in the trace of a state.\<close>

fun is_RefreshPost :: "event \<Rightarrow> bool" where
  "is_RefreshPost (RefreshPost t) = True"
| "is_RefreshPost e = False"

fun is_Dispatch :: "event \<Rightarrow> bool" where
  "is_Dispatch (Dispatch r) = True"
| "is_Dispatch e = False"

definition refresh_calls :: "world \<Rightarrow> nat" where
  "refresh_calls w = length (filter is_RefreshPost (trace w))"

definition dispatches :: "world \<Rightarrow> nat" where
  "dispatches w = length (filter is_Dispatch (trace w))"

text \<open>
  The urls of the requests dispatched through the instance, in order; the url of the
  request a suspended handler would replay, whether its refresh call succeeded, the error
  it handles, and whether it is suspended with a marked request.
\<close>

fun dispatched :: "event list \<Rightarrow> string list" where
  "dispatched [] = []"
| "dispatched (Dispatch r # es) = url r # dispatched es"
| "dispatched (e # es) = dispatched es"

fun entry_url :: "pending \<times> js_error \<times> (js_error + json option) \<Rightarrow> string" where
  "entry_url (AwaitRefresh req refreshToken, error, outcome) = url req"
| "entry_url (Settled r, error, outcome) = []"

fun entry_refreshed :: "pending \<times> js_error \<times> (js_error + json option) \<Rightarrow> bool" where
  "entry_refreshed (p, error, outcome) = (refreshed_data outcome \<noteq> None)"

fun entry_error :: "pending \<times> js_error \<times> (js_error + json option) \<Rightarrow> js_error" where
  "entry_error (p, error, outcome) = error"

fun awaiting_marked :: "pending \<Rightarrow> bool" where
  "awaiting_marked (AwaitRefresh req refreshToken) = cfg_retry req"
| "awaiting_marked (Settled r) = False"

fun is_Invoke :: "retry_event \<Rightarrow> bool" where
  "is_Invoke (Invoke i) = True"
| "is_Invoke (Wait ms) = False"

text \<open>
  The trace of iterations \<open>i\<close> to \<open>k - 1\<close> when each fails and is followed by its
  wait of \<open>delay * 2 ^ j\<close>.
\<close>

definition backoff :: "int \<Rightarrow> nat \<Rightarrow> nat \<Rightarrow> retry_event list" where
  "backoff delay i k = concat (map (\<lambda>j. [Invoke j, Wait (delay * 2 ^ j)]) [i..<k])"

fun is_rejected :: "('a, 'e) invocation \<Rightarrow> bool" where
  "is_rejected (promise (Some (rejected reason))) = True"
| "is_rejected i = False"

definition failures :: "(unit \<Rightarrow> ('a, 'e) invocation) list \<Rightarrow> nat" where
  "failures requests = length (filter is_rejected (map (\<lambda>request. request ()) requests))"

text \<open>
  The state after a logout that does not touch the cache, relative to the state \<open>w\<close>
  before: the three keys are gone, the page is at the login route, the cache is that of
  \<open>w\<close>, and a notification reaches every listener with \<open>(false, null)\<close>.
\<close>

definition logged_out_keeping_cache :: "env \<Rightarrow> listener list \<Rightarrow> world \<Rightarrow> world \<Rightarrow> bool" where
  "logged_out_keeping_cache env listeners w w' =
     (localStorage w' storageKeys_accessToken = None
      \<and> localStorage w' storageKeys_refreshToken = None
      \<and> localStorage w' storageKeys_user = None
      \<and> location_href w' = ''/auth/login''
      \<and> cache w' = cache w
      \<and> \<not> AuthService_isAuthenticated w'
      \<and> fst (AuthStateManager_notifyStateChange env listeners w') =
          map (\<lambda>j. Notified j False JNull) [0..<length listeners])"

section \<open>Concrete inputs\<close>

text \<open>A cache holding one entry, stored at time 0 with a ttl of 10.\<close>

definition c3_cache :: request_cache where
  "c3_cache = RequestCache_set 0 ''k'' (Some (JStr ''v'')) (Some 10) Map.empty"

text \<open>Operations for \<open>retry\<close>: one failing twice and then succeeding, one failing always.\<close>

definition fails_twice :: "nat \<Rightarrow> string + string" where
  "fails_twice i = (if i < 2 then Inl ''err'' else Inr ''ok'')"

definition always_fails :: "nat \<Rightarrow> nat + string" where
  "always_fails i = Inl i"

text \<open>Request lists for \<open>batch\<close>.\<close>

definition c7_requests :: "(unit \<Rightarrow> (string, string) invocation) list" where
  "c7_requests = [(\<lambda>u. promise (Some (rejected ''e0''))), (\<lambda>u. promise (Some (fulfilled ''v1''))),
                  (\<lambda>u. promise (Some (rejected ''e2'')))]"

definition c7_mixed :: "(unit \<Rightarrow> (string, string) invocation) list" where
  "c7_mixed = [(\<lambda>u. promise (Some (fulfilled ''v0''))), (\<lambda>u. promise (Some (rejected ''e1''))),
               (\<lambda>u. promise (Some (rejected ''e2'')))]"

definition c7_all_ok :: "(unit \<Rightarrow> (string, string) invocation) list" where
  "c7_all_ok = [(\<lambda>u. promise (Some (fulfilled ''v0''))), (\<lambda>u. promise (Some (fulfilled ''v1'')))]"

definition c7_unsettled :: "(unit \<Rightarrow> (string, string) invocation) list" where
  "c7_unsettled = [(\<lambda>u. promise (Some (rejected ''e0''))), (\<lambda>u. promise None)]"

definition c7_throwing :: "(unit \<Rightarrow> (string, string) invocation) list" where
  "c7_throwing = [(\<lambda>u. promise (Some (fulfilled ''v0''))), (\<lambda>u. throws ''boom''),
                  (\<lambda>u. promise (Some (rejected ''e2'')))]"

text \<open>The error of a 401 response without a body, as the transport raises it.\<close>

definition unauthorized :: js_error where
  "unauthorized =
     \<lparr>err_config = None,
      err_response = Some \<lparr>status = 401, resp_data = None\<rparr>,
      err_message = Some (JStr ''Request failed with status code 401''),
      err_code = Some (JStr ''ERR_BAD_REQUEST'')\<rparr>"

text \<open>\<open>ToString\<close> on the values of the inputs below: a string is itself.\<close>

definition string_of :: "json option \<Rightarrow> string" where
  "string_of v = (case v of Some (JStr s) \<Rightarrow> s | _ \<Rightarrow> ''undefined'')"

text \<open>A server that answers every request with 401 and renews the access token.\<close>

definition always_401 :: env where
  "always_401 =
     \<lparr>adapter = (\<lambda>h c. Inl unauthorized),
      refresh_endpoint = (\<lambda>h t. Inr (Some (JObj [(''access'', JStr ''new'')]))),
      ToString = string_of,
      JSON_parse = (\<lambda>s. None),
      JSON_stringify = (\<lambda>j. ''{}''),
      generateRequestId = (\<lambda>h. ''req_0''),
      jwt_exp = (\<lambda>token. None)\<rparr>"

text \<open>Browser states: a session with all three keys stored, and an empty one.\<close>

definition logged_in :: world where
  "logged_in =
     \<lparr>localStorage = [storageKeys_accessToken \<mapsto> ''old'', storageKeys_refreshToken \<mapsto> ''rt'',
                      storageKeys_user \<mapsto> ''{}''],
      location_href = ''/dashboard'',
      cache = c3_cache,
      trace = []\<rparr>"

definition replayed_request :: request where
  "replayed_request = default_config\<lparr>cfg_retry := True\<rparr>"

text \<open>A server that answers every request with 401 and rejects the refresh call.\<close>

definition expired_session :: env where
  "expired_session =
     \<lparr>adapter = (\<lambda>h c. Inl unauthorized),
      refresh_endpoint = (\<lambda>h t. Inl unauthorized),
      ToString = string_of,
      JSON_parse = (\<lambda>s. None),
      JSON_stringify = (\<lambda>j. ''{}''),
      generateRequestId = (\<lambda>h. ''req_0''),
      jwt_exp = (\<lambda>token. None)\<rparr>"

definition logged_out :: world where
  "logged_out = \<lparr>localStorage = Map.empty, location_href = ''/dashboard'', cache = c3_cache, trace = []\<rparr>"

text \<open>Two listeners, the first of which throws.\<close>

definition two_listeners :: "listener list" where
  "two_listeners = [(\<lambda>a u. True), (\<lambda>a u. False)]"

text \<open>
  A server that rejects the stale token with 401 and accepts the renewed one.
\<close>

definition renewing :: env where
  "renewing =
     \<lparr>adapter = (\<lambda>h c. if map_of (headers c) ''Authorization'' = Some ''Bearer new''
                         then Inr \<lparr>status = 200, resp_data = Some (JObj [(''access'', JStr ''fresh'')])\<rparr>
                         else Inl unauthorized),
      refresh_endpoint = (\<lambda>h t. Inr (Some (JObj [(''access'', JStr ''new'')]))),
      ToString = string_of,
      JSON_parse = (\<lambda>s. None),
      JSON_stringify = (\<lambda>j. ''{}''),
      generateRequestId = (\<lambda>h. ''req_0''),
      jwt_exp = (\<lambda>token. None)\<rparr>"

text \<open>A 400 response whose body has \<open>message\<close> and \<open>details\<close> members; a network failure.\<close>

definition validation_failure :: js_error where
  "validation_failure =
     \<lparr>err_config = None,
      err_response = Some \<lparr>status = 400,
                           resp_data = Some (JObj [(''message'', JStr ''Invalid input''),
                                                   (''details'', JObj [(''name'', JStr ''required'')])])\<rparr>,
      err_message = Some (JStr ''Request failed with status code 400''),
      err_code = Some (JStr ''ERR_BAD_REQUEST'')\<rparr>"

definition network_down :: js_error where
  "network_down =
     \<lparr>err_config = None, err_response = None,
      err_message = Some (JStr ''Network Error''), err_code = Some (JStr ''ERR_NETWORK'')\<rparr>"

text \<open>Two requests, neither marked, and their 401 errors.\<close>

definition first_config :: request where
  "first_config = default_config\<lparr>url := ''/api/v1/documents/''\<rparr>"

definition second_config :: request where
  "second_config = default_config\<lparr>url := ''/api/v1/auth/profile/''\<rparr>"

definition first_401 :: js_error where
  "first_401 = unauthorized\<lparr>err_config := Some first_config\<rparr>"

definition second_401 :: js_error where
  "second_401 = unauthorized\<lparr>err_config := Some second_config\<rparr>"

text \<open>
  A schedule in which the refresh call of the second request settles first, with a new
  token, and that of the first request is rejected.
\<close>

definition renewed :: "js_error + json option" where
  "renewed = Inr (Some (JObj [(''access'', JStr ''new'')]))"

definition second_settles_first :: "(pending \<times> js_error \<times> (js_error + json option)) list" where
  "second_settles_first =
     [(AwaitRefresh (second_config\<lparr>cfg_retry := True\<rparr>) ''rt'', second_401, renewed),
      (AwaitRefresh (first_config\<lparr>cfg_retry := True\<rparr>) ''rt'', first_401, Inl unauthorized)]"

text \<open>
  An unreachable server, a server that answers every GET, and a state whose cache holds an
  entry for the documents list stored at time 0 with a ttl of 10.
\<close>

definition server_down :: env where
  "server_down =
     \<lparr>adapter = (\<lambda>h c. Inl \<lparr>err_config = None, err_response = None,
                               err_message = Some (JStr ''Network Error''),
                               err_code = Some (JStr ''ERR_NETWORK'')\<rparr>),
      refresh_endpoint = (\<lambda>h t. Inl unauthorized),
      ToString = string_of,
      JSON_parse = (\<lambda>s. None),
      JSON_stringify = (\<lambda>j. ''{}''),
      generateRequestId = (\<lambda>h. ''req_0''),
      jwt_exp = (\<lambda>token. None)\<rparr>"

definition stale_cache :: world where
  "stale_cache =
     \<lparr>localStorage = Map.empty, location_href = ''/documents'',
      cache = RequestCache_set 0 ''/api/v1/documents/_{}'' (Some (JStr ''v'')) (Some 10) Map.empty,
      trace = []\<rparr>"

definition serving :: env where
  "serving =
     \<lparr>adapter = (\<lambda>h c. Inr \<lparr>status = 200, resp_data = Some (JStr ''list'')\<rparr>),
      refresh_endpoint = (\<lambda>h t. Inl unauthorized),
      ToString = string_of,
      JSON_parse = (\<lambda>s. None),
      JSON_stringify = (\<lambda>j. ''{}''),
      generateRequestId = (\<lambda>h. ''req_0''),
      jwt_exp = (\<lambda>token. None)\<rparr>"

definition no_cache :: request where
  "no_cache = default_config\<lparr>cfg_cache := Some False\<rparr>"

section \<open>Properties\<close>

subsection \<open>Request cache\<close>

text \<open>
  C3 (amended).  \<open>get(key)\<close> returns the stored payload when an entry is present and
  \<open>now \<le> storedAt + ttl\<close> (the test is \<open>Date.now() - timestamp > ttl\<close>, so an entry is
  still served at exactly \<open>storedAt + ttl\<close>); otherwise it returns \<open>null\<close>, evicting an
  expired entry.  An entry set with ttl \<open>T\<close> at time \<open>stored\<close> is returned unchanged at any
  time in \<open>[stored, stored + T]\<close> and is not returned at \<open>stored + T + eps\<close> for \<open>eps > 0\<close>.
\<close>

theorem RequestCache_get_ttl:
  "RequestCache_get now key c =
     (case c key of
        None \<Rightarrow> (Some JNull, c)
      | Some item \<Rightarrow>
          if now \<le> timestamp item + ttl item then (data item, c)
          else (Some JNull, c(key := None)))
   \<and> (stored \<le> t \<and> t \<le> stored + T \<longrightarrow>
        RequestCache_get t key (RequestCache_set stored key d (Some T) c) =
          (d, RequestCache_set stored key d (Some T) c))
   \<and> (0 < eps \<longrightarrow>
        RequestCache_get (stored + T + eps) key (RequestCache_set stored key d (Some T) c) =
          (Some JNull, c(key := None)))"
  by (auto simp: RequestCache_get_def RequestCache_set_def split: option.splits)

theorem RequestCache_get_ttl_witness:
  "RequestCache_get 10 ''k'' (RequestCache_set 0 ''k'' (Some (JStr ''v'')) (Some 10) Map.empty) =
     (Some (JStr ''v''), RequestCache_set 0 ''k'' (Some (JStr ''v'')) (Some 10) Map.empty)
   \<and> RequestCache_get 11 ''k'' (RequestCache_set 0 ''k'' (Some (JStr ''v'')) (Some 10) Map.empty) =
     (Some JNull, Map.empty)"
  using RequestCache_get_ttl [where stored = 0 and t = 10 and T = 10 and d = "Some (JStr ''v'')"
      and c = Map.empty and eps = 1 and key = "''k''"]
  by simp

text \<open>
  C3 as stated fails at \<open>now = storedAt + ttl\<close>: \<open>now < storedAt + ttl\<close> is false there,
  yet the payload is returned and the entry is kept.
\<close>

theorem RequestCache_get_boundary:
  "c3_cache ''k'' = Some \<lparr>data = Some (JStr ''v''), timestamp = 0, ttl = 10\<rparr>
   \<and> \<not> ((10::int) < 0 + 10)
   \<and> fst (RequestCache_get 10 ''k'' c3_cache) = Some (JStr ''v'')
   \<and> snd (RequestCache_get 10 ''k'' c3_cache) ''k'' \<noteq> None"
  by (simp add: c3_cache_def RequestCache_get_def RequestCache_set_def)


subsection \<open>retry\<close>

lemma backoff_step: "i < k \<Longrightarrow> backoff delay i k = [Invoke i, Wait (delay * 2 ^ i)] @ backoff delay (Suc i) k"
  by (simp add: backoff_def upt_conv_Cons)

lemma backoff_empty: "backoff delay k k = []"
  by (simp add: backoff_def)

lemma retry_loop_success:
  assumes "\<forall>j. i \<le> j \<and> j < k \<longrightarrow> isl (request j)" and "i \<le> k" and "int k \<le> maxRetries"
    and "request k = Inr v"
  shows "retry_loop request maxRetries delay i lastError tr =
           (Inr v, tr @ backoff delay i k @ [Invoke k])"
  using assms
proof (induction "k - i" arbitrary: i lastError tr)
  case 0
  then have "i = k" by simp
  with 0 show ?case by (simp add: backoff_empty)
next
  case (Suc n)
  then have lt: "i < k" by simp
  with Suc.prems obtain e where e: "request i = Inl e" by (cases "request i") auto
  have "retry_loop request maxRetries delay (Suc i) (Some e) (tr @ [Invoke i, Wait (delay * 2 ^ i)]) =
          (Inr v, (tr @ [Invoke i, Wait (delay * 2 ^ i)]) @ backoff delay (Suc i) k @ [Invoke k])"
    using Suc.hyps(2) Suc.prems lt by (intro Suc.hyps(1)) auto
  then show ?case
    using e lt Suc.prems(3) by (simp add: backoff_step)
qed

lemma retry_loop_exhausted:
  assumes "\<forall>j. i \<le> j \<and> j < k \<longrightarrow> isl (request j)" and "i \<le> k" and "int k = maxRetries"
    and "request k = Inl e"
  shows "retry_loop request maxRetries delay i lastError tr =
           (Inl (Some e), tr @ backoff delay i k @ [Invoke k])"
  using assms
proof (induction "k - i" arbitrary: i lastError tr)
  case 0
  then have "i = k" by simp
  with 0 show ?case by (simp add: backoff_empty)
next
  case (Suc n)
  then have lt: "i < k" by simp
  with Suc.prems obtain e' where e: "request i = Inl e'" by (cases "request i") auto
  have "retry_loop request maxRetries delay (Suc i) (Some e') (tr @ [Invoke i, Wait (delay * 2 ^ i)]) =
          (Inl (Some e), (tr @ [Invoke i, Wait (delay * 2 ^ i)]) @ backoff delay (Suc i) k @ [Invoke k])"
    using Suc.hyps(2) Suc.prems lt by (intro Suc.hyps(1)) auto
  then show ?case
    using e lt Suc.prems(3) by (simp add: backoff_step)
qed

lemma retry_loop_invocations:
  "length (filter is_Invoke (snd (retry_loop request maxRetries delay i lastError tr))) \<le>
     length (filter is_Invoke tr) + nat (maxRetries + 1 - int i)"
proof (induction request maxRetries delay i lastError tr rule: retry_loop.induct)
  case (1 request maxRetries delay i lastError tr)
  show ?case
  proof (cases "int i \<le> maxRetries")
    case False
    then show ?thesis by simp
  next
    case True
    show ?thesis
    proof (cases "request i")
      case (Inr v)
      with True show ?thesis by simp
    next
      case (Inl e)
      with True "1.IH"[OF True Inl] show ?thesis by (simp split: if_splits)
    qed
  qed
qed

text \<open>
  C6.  \<open>retry(request, maxRetries, delay)\<close> invokes the operation at most
  \<open>maxRetries + 1\<close> times.  When the first success is at invocation \<open>k \<le> maxRetries\<close>,
  it returns that value after exactly \<open>k + 1\<close> invocations, having waited
  \<open>delay * 2 ^ j\<close> after the failure of invocation \<open>j\<close>.  When all \<open>maxRetries + 1\<close>
  invocations fail, it throws the last error, with no wait after the last failure.
\<close>

theorem retry_backoff:
  "length (filter is_Invoke (snd (retry request maxRetries delay))) \<le> nat (maxRetries + 1)
   \<and> ((\<forall>j<k. isl (request j)) \<and> request k = Inr v \<and> int k \<le> maxRetries \<longrightarrow>
        retry request maxRetries delay = (Inr v, backoff delay 0 k @ [Invoke k]))
   \<and> ((\<forall>j<k. isl (request j)) \<and> request k = Inl e \<and> int k = maxRetries \<longrightarrow>
        retry request maxRetries delay = (Inl (Some e), backoff delay 0 k @ [Invoke k]))"
proof (intro conjI impI)
  show "length (filter is_Invoke (snd (retry request maxRetries delay))) \<le> nat (maxRetries + 1)"
    using retry_loop_invocations[of request maxRetries delay 0 None "[]"] by (simp add: retry_def)
next
  assume "(\<forall>j<k. isl (request j)) \<and> request k = Inr v \<and> int k \<le> maxRetries"
  then show "retry request maxRetries delay = (Inr v, backoff delay 0 k @ [Invoke k])"
    using retry_loop_success[of 0 k request maxRetries v delay None "[]"] by (simp add: retry_def)
next
  assume "(\<forall>j<k. isl (request j)) \<and> request k = Inl e \<and> int k = maxRetries"
  then show "retry request maxRetries delay = (Inl (Some e), backoff delay 0 k @ [Invoke k])"
    using retry_loop_exhausted[of 0 k request maxRetries e delay None "[]"] by (simp add: retry_def)
qed

text \<open>
  The scenario of the specification: an operation failing twice and then succeeding, with
  \<open>maxRetries = 3\<close> and \<open>delay = 100\<close>, is invoked three times with waits of 100 and 200.
\<close>

theorem retry_backoff_witness:
  "retry fails_twice 3 100 = (Inr ''ok'', [Invoke 0, Wait 100, Invoke 1, Wait 200, Invoke 2])
   \<and> retry always_fails 1 100 = (Inl (Some 1), [Invoke 0, Wait 100, Invoke 1])"
proof -
  have b2: "backoff 100 0 2 = [Invoke 0, Wait 100, Invoke 1, Wait 200]"
    by (simp add: backoff_def upt_rec numeral_2_eq_2)
  have b1: "backoff 100 0 1 = [Invoke 0, Wait 100]"
    by (simp add: backoff_def)
  have h1: "(\<forall>j<2. isl (fails_twice j)) \<and> fails_twice 2 = Inr ''ok'' \<and> int 2 \<le> 3"
    by (simp add: fails_twice_def)
  have h2: "(\<forall>j<1. isl (always_fails j)) \<and> always_fails 1 = Inl 1 \<and> int 1 = 1"
    by (simp add: always_fails_def)
  show ?thesis
    using retry_backoff[of fails_twice 3 100 2 "''ok''" "''err''"] h1
      retry_backoff[of always_fails 1 100 1 "''x''" 1] h2 b1 b2
    by simp
qed

subsection \<open>batch\<close>

lemma invoke_each_promises:
  "map (\<lambda>request. request ()) requests = map promise ps \<Longrightarrow>
   invoke_each index requests = ([index..<index + length requests], Inr ps)"
proof (induction requests arbitrary: index ps)
  case Nil
  then show ?case by simp
next
  case (Cons request requests)
  then obtain p ps' where ps: "ps = p # ps'" "request () = promise p"
    "map (\<lambda>request. request ()) requests = map promise ps'"
    by (cases ps) auto
  have "[index..<index + length (request # requests)] = index # [Suc index..<Suc index + length requests]"
    by (simp add: upt_conv_Cons del: upt_Suc)
  then show ?case
    using Cons.IH[OF ps(3), of "Suc index"] ps(1,2) by simp
qed

lemma invoke_each_throws:
  "map (\<lambda>request. request ()) requests = map promise ps @ throws e # later \<Longrightarrow>
   invoke_each index requests = ([index..<Suc (index + length ps)], Inl e)"
proof (induction ps arbitrary: index requests)
  case Nil
  then obtain request rest where "requests = request # rest" "request () = throws e"
    by (cases requests) auto
  then show ?case by (simp add: upt_conv_Cons del: upt_Suc)
next
  case (Cons p ps)
  then obtain request rest where r: "requests = request # rest" "request () = promise p"
    "map (\<lambda>request. request ()) rest = map promise ps @ throws e # later"
    by (cases requests) auto
  have "[index..<Suc (index + length (p # ps))] = index # [Suc index..<Suc (Suc index + length ps)]"
    by (simp add: upt_conv_Cons del: upt_Suc)
  then show ?case
    using Cons.IH[OF r(3), of "Suc index"] r(1,2) by simp
qed

lemma batch_results_fulfilled:
  "batch_results index (map fulfilled vs) = (Inr vs, [])"
  by (induction vs arbitrary: index) auto

lemma batch_results_first_rejected:
  "batch_results index (map fulfilled vs @ rejected reason # rest) =
     (Inl reason, [(index + length vs, reason)])"
  by (induction vs arbitrary: index) auto

lemma those_map_Some: "those (map Some xs) = Some xs"
  by (induction xs) auto

lemma those_None: "None \<in> set ps \<Longrightarrow> those ps = None"
  by (induction ps) (auto split: option.splits)

text \<open>
  C7 (amended).  When every invocation returns a promise, \<open>batch(requests)\<close> invokes all
  the operations and does not return before each of them has settled: with an operation
  that never settles it never returns, also when another one has already been rejected.
  When all are fulfilled it returns their values in order and logs nothing; otherwise it
  fails with the reason of the first rejected operation in list order and logs that one
  failure only, with its index.  When an invocation throws, the operations after it are
  never invoked, and \<open>batch\<close> fails with what was thrown and logs nothing.
\<close>

theorem batch_first_failure:
  "(map (\<lambda>request. request ()) requests = map promise ps \<longrightarrow>
      batch_started (batch requests) = [0..<length requests])
   \<and> (map (\<lambda>request. request ()) requests = map promise (map Some (map fulfilled vs)) \<longrightarrow>
      batch_outcome (batch requests) = Some (Inr vs) \<and> batch_logged (batch requests) = [])
   \<and> (map (\<lambda>request. request ()) requests =
        map promise (map Some (map fulfilled vs @ rejected reason # rest)) \<longrightarrow>
      batch_outcome (batch requests) = Some (Inl reason)
      \<and> batch_logged (batch requests) = [(length vs, reason)])
   \<and> (map (\<lambda>request. request ()) requests = map promise ps \<and> None \<in> set ps \<longrightarrow>
      batch_outcome (batch requests) = None \<and> batch_logged (batch requests) = [])
   \<and> (map (\<lambda>request. request ()) requests = map promise ps @ throws e # later \<longrightarrow>
      batch_started (batch requests) = [0..<Suc (length ps)]
      \<and> batch_outcome (batch requests) = Some (Inl e) \<and> batch_logged (batch requests) = [])"
proof (intro conjI impI)
  assume "map (\<lambda>request. request ()) requests = map promise ps"
  from invoke_each_promises[OF this, of 0]
  show "batch_started (batch requests) = [0..<length requests]"
    by (simp add: batch_def split: option.splits prod.splits)
next
  assume a: "map (\<lambda>request. request ()) requests = map promise (map Some (map fulfilled vs))"
  note i = invoke_each_promises[OF a, of 0]
  have b: "batch requests =
      \<lparr>batch_started = [0..<0 + length requests], batch_logged = [], batch_outcome = Some (Inr vs)\<rparr>"
    unfolding batch_def i prod.case sum.case those_map_Some option.case batch_results_fulfilled
    by (rule refl)
  show "batch_outcome (batch requests) = Some (Inr vs)"
    by (simp add: b)
  show "batch_logged (batch requests) = []"
    by (simp add: b)
next
  assume a: "map (\<lambda>request. request ()) requests =
        map promise (map Some (map fulfilled vs @ rejected reason # rest))"
  note i = invoke_each_promises[OF a, of 0]
  have b: "batch requests =
      \<lparr>batch_started = [0..<0 + length requests], batch_logged = [(0 + length vs, reason)],
       batch_outcome = Some (Inl reason)\<rparr>"
    unfolding batch_def i prod.case sum.case those_map_Some option.case batch_results_first_rejected
    by (rule refl)
  show "batch_outcome (batch requests) = Some (Inl reason)"
    by (simp add: b)
  show "batch_logged (batch requests) = [(length vs, reason)]"
    by (simp add: b)
next
  assume a: "map (\<lambda>request. request ()) requests = map promise ps \<and> None \<in> set ps"
  then have i: "invoke_each 0 requests = ([0..<0 + length requests], Inr ps)"
    by (intro invoke_each_promises) simp
  from a have n: "those ps = None" by (simp add: those_None)
  show "batch_outcome (batch requests) = None"
    by (simp add: batch_def i n)
  show "batch_logged (batch requests) = []"
    by (simp add: batch_def i n)
next
  assume a: "map (\<lambda>request. request ()) requests = map promise ps @ throws e # later"
  note i = invoke_each_throws[OF a, of 0]
  show "batch_started (batch requests) = [0..<Suc (length ps)]"
    by (simp add: batch_def i)
  show "batch_outcome (batch requests) = Some (Inl e)"
    by (simp add: batch_def i)
  show "batch_logged (batch requests) = []"
    by (simp add: batch_def i)
qed

theorem batch_first_failure_witness:
  "batch_started (batch c7_mixed) = [0, 1, 2]
   \<and> batch_outcome (batch c7_all_ok) = Some (Inr [''v0'', ''v1''])
   \<and> batch_logged (batch c7_all_ok) = []
   \<and> batch_outcome (batch c7_mixed) = Some (Inl ''e1'')
   \<and> batch_logged (batch c7_mixed) = [(1, ''e1'')]
   \<and> batch_outcome (batch c7_unsettled) = None
   \<and> batch_logged (batch c7_unsettled) = []
   \<and> batch_started (batch c7_throwing) = [0, 1]
   \<and> batch_outcome (batch c7_throwing) = Some (Inl ''boom'')
   \<and> batch_logged (batch c7_throwing) = []"
proof -
  have u: "[0..<3] = [0, 1, Suc (Suc 0)]" "[0..<Suc (Suc 0)] = [0, Suc 0]"
    by (simp_all add: upt_rec)
  show ?thesis
    using batch_first_failure [where requests = c7_mixed
        and ps = "[Some (fulfilled ''v0''), Some (rejected ''e1''), Some (rejected ''e2'')]"
        and vs = "[''v0'']" and reason = "''e1''" and rest = "[rejected ''e2'']"]
      batch_first_failure [where requests = c7_all_ok and vs = "[''v0'', ''v1'']"]
      batch_first_failure [where requests = c7_unsettled and ps = "[Some (rejected ''e0''), None]"]
      batch_first_failure [where requests = c7_throwing and ps = "[Some (fulfilled ''v0'')]"
        and e = "''boom''" and later = "[promise (Some (rejected ''e2''))]"]
    by (simp add: c7_all_ok_def c7_mixed_def c7_unsettled_def c7_throwing_def u)
qed

text \<open>
  C7 as stated fails on the logging: with two rejected operations (indices 0 and 2), all
  three invoked and settled, a single \<open>console.error\<close> call is made, for index 0.
\<close>

theorem batch_logs_one_failure:
  "failures c7_requests = 2
   \<and> batch_started (batch c7_requests) = [0, 1, 2]
   \<and> batch_outcome (batch c7_requests) = Some (Inl ''e0'')
   \<and> batch_logged (batch c7_requests) = [(0, ''e0'')]"
  by (simp add: failures_def c7_requests_def batch_def)

subsection \<open>One call of the instance, path by path\<close>

lemma storageKeys_distinct [simp]:
  "storageKeys_accessToken \<noteq> storageKeys_refreshToken"
  "storageKeys_accessToken \<noteq> storageKeys_user"
  "storageKeys_refreshToken \<noteq> storageKeys_user"
  "storageKeys_refreshToken \<noteq> storageKeys_accessToken"
  "storageKeys_user \<noteq> storageKeys_accessToken"
  "storageKeys_user \<noteq> storageKeys_refreshToken"
  by (simp_all add: storageKeys_accessToken_def storageKeys_refreshToken_def storageKeys_user_def)

lemma apiError_of_config [simp]: "apiError_of (e\<lparr>err_config := x\<rparr>) = apiError_of e"
  by (simp add: apiError_of_def server_payload_def)

lemma api_unfold:
  "api env config w =
     (case adapter env (trace w @ [Dispatch (request_fulfilled env config w)]) (request_fulfilled env config w) of
        Inr r \<Rightarrow> (Inr r, w\<lparr>trace := trace w @ [Dispatch (request_fulfilled env config w)]\<rparr>)
      | Inl e \<Rightarrow>
          (case response_rejected_begin (e\<lparr>err_config := Some (request_fulfilled env config w)\<rparr>)
                  (w\<lparr>trace := trace w @ [Dispatch (request_fulfilled env config w)]\<rparr>) of
             (Settled r, w3) \<Rightarrow> (Inl r, w3)
           | (AwaitRefresh originalRequest refreshToken, w3) \<Rightarrow>
               (case response_rejected_resume env (refresh_endpoint env (trace w3) refreshToken)
                       originalRequest (e\<lparr>err_config := Some (request_fulfilled env config w)\<rparr>) w3 of
                  (Finished r, w4) \<Rightarrow> (Inl r, w4)
                | (Replay req, w4) \<Rightarrow> api env req w4)))"
  unfolding api_def
  by (subst interceptor_chain.simps)
     (simp add: dispatch_stage_def request_stage_def dispatchRequest_def split: sum.splits)

lemma request_fulfilled_retry [simp]: "cfg_retry (request_fulfilled env config w) = cfg_retry config"
  by (simp add: request_fulfilled_def Let_def split: option.splits)

lemma begin_retried:
  "err_config error = Some c \<Longrightarrow> cfg_retry c \<Longrightarrow>
   response_rejected_begin error w =
     (Settled (ApiError (apiError_of error)), w\<lparr>trace := trace w @ [ConsoleError ''[API Response Error]'']\<rparr>)"
  by (simp add: response_rejected_begin_def settle_apiError_def reject_apiError_def)

lemma api_retried:
  assumes "cfg_retry config"
  shows "api env config w =
     (case adapter env (trace w @ [Dispatch (request_fulfilled env config w)]) (request_fulfilled env config w) of
        Inr r \<Rightarrow> (Inr r, w\<lparr>trace := trace w @ [Dispatch (request_fulfilled env config w)]\<rparr>)
      | Inl e \<Rightarrow> (Inl (ApiError (apiError_of e)),
                  w\<lparr>trace := trace w @ [Dispatch (request_fulfilled env config w),
                                         ConsoleError ''[API Response Error]'']\<rparr>))"
  by (subst api_unfold) (simp add: begin_retried assms split: sum.splits)


lemma api_fulfilled:
  assumes "adapter env (trace w @ [Dispatch (request_fulfilled env config w)]) (request_fulfilled env config w) = Inr r"
  shows "api env config w = (Inr r, w\<lparr>trace := trace w @ [Dispatch (request_fulfilled env config w)]\<rparr>)"
  by (subst api_unfold) (simp add: assms)

lemma api_rejected_plain:
  assumes "adapter env (trace w @ [Dispatch (request_fulfilled env config w)]) (request_fulfilled env config w) = Inl e"
    and "map_option status (err_response e) \<noteq> Some 401 \<or> cfg_retry config
         \<or> \<not> truthy_item (localStorage w storageKeys_refreshToken)"
  shows "api env config w =
           (Inl (ApiError (apiError_of e)),
            w\<lparr>trace := trace w @ [Dispatch (request_fulfilled env config w),
                                   ConsoleError ''[API Response Error]'']\<rparr>)"
  using assms(2)
  by (subst api_unfold)
     (auto simp: assms(1) response_rejected_begin_def settle_apiError_def reject_apiError_def
           split: option.splits)

lemma api_refresh_failed:
  assumes "adapter env (trace w @ [Dispatch (request_fulfilled env config w)]) (request_fulfilled env config w) = Inl e"
    and "map_option status (err_response e) = Some 401" and "\<not> cfg_retry config"
    and "localStorage w storageKeys_refreshToken = Some t" and "t \<noteq> []"
    and "refreshed_data (refresh_endpoint env
           (trace w @ [Dispatch (request_fulfilled env config w), RefreshPost t]) t) = None"
  shows "api env config w =
           (Inl (ApiError (apiError_of e)),
            w\<lparr>localStorage := clear_credentials (localStorage w),
              location_href := ''/auth/login'',
              trace := trace w @ [Dispatch (request_fulfilled env config w), RefreshPost t,
                                  ConsoleError ''[API Response Error]'']\<rparr>)"
  by (subst api_unfold)
     (simp add: assms response_rejected_begin_def response_rejected_resume_def reject_apiError_def)

lemma api_refreshed:
  assumes "adapter env (trace w @ [Dispatch (request_fulfilled env config w)]) (request_fulfilled env config w) = Inl e"
    and "map_option status (err_response e) = Some 401" and "\<not> cfg_retry config"
    and "localStorage w storageKeys_refreshToken = Some t" and "t \<noteq> []"
    and "refreshed_data (refresh_endpoint env
           (trace w @ [Dispatch (request_fulfilled env config w), RefreshPost t]) t) = Some d"
  shows "api env config w =
           api env
             ((request_fulfilled env config w)\<lparr>
                cfg_retry := True,
                headers := set_header ''Authorization''
                             (''Bearer '' @ ToString env (js_member (Some d) ''access''))
                             (headers (request_fulfilled env config w))\<rparr>)
             (w\<lparr>trace := trace w @ [Dispatch (request_fulfilled env config w), RefreshPost t],
               localStorage := (localStorage w)(storageKeys_accessToken \<mapsto>
                                    ToString env (js_member (Some d) ''access''))\<rparr>)"
  by (subst api_unfold)
     (simp add: assms response_rejected_begin_def response_rejected_resume_def Let_def)


lemma api_retried_effects:
  assumes "cfg_retry config"
  shows "cache (snd (api env config w)) = cache w"
    and "localStorage (snd (api env config w)) = localStorage w"
    and "location_href (snd (api env config w)) = location_href w"
    and "dispatches (snd (api env config w)) = dispatches w + 1"
    and "refresh_calls (snd (api env config w)) = refresh_calls w"
    and "fst (api env config w) = Inl r \<Longrightarrow> \<exists>h c e. adapter env h c = Inl e \<and> r = ApiError (apiError_of e)"
    and "fst (api env config w) = Inr resp \<Longrightarrow> \<exists>h c. adapter env h c = Inr resp"
  by (auto simp: api_retried[OF assms] dispatches_def refresh_calls_def split: sum.splits)

lemma api_effects:
  shows "cache (snd (api env config w)) = cache w"
    and "dispatches (snd (api env config w)) \<le> dispatches w + 2"
    and "refresh_calls (snd (api env config w)) \<le> refresh_calls w + 1"
    and "localStorage (snd (api env config w)) = localStorage w
         \<or> (\<exists>s. localStorage (snd (api env config w)) = (localStorage w)(storageKeys_accessToken \<mapsto> s))
         \<or> (isl (fst (api env config w))
             \<and> localStorage (snd (api env config w)) = clear_credentials (localStorage w))"
    and "fst (api env config w) = Inl r \<Longrightarrow> \<exists>h c e. adapter env h c = Inl e \<and> r = ApiError (apiError_of e)"
    and "fst (api env config w) = Inr resp \<Longrightarrow> \<exists>h c. adapter env h c = Inr resp"
proof -
  let ?c1 = "request_fulfilled env config w"
  let ?P = "cache (snd (api env config w)) = cache w
    \<and> dispatches (snd (api env config w)) \<le> dispatches w + 2
    \<and> refresh_calls (snd (api env config w)) \<le> refresh_calls w + 1
    \<and> (localStorage (snd (api env config w)) = localStorage w
         \<or> (\<exists>s. localStorage (snd (api env config w)) = (localStorage w)(storageKeys_accessToken \<mapsto> s))
         \<or> (isl (fst (api env config w))
             \<and> localStorage (snd (api env config w)) = clear_credentials (localStorage w)))
    \<and> (fst (api env config w) = Inl r \<longrightarrow> (\<exists>h c e. adapter env h c = Inl e \<and> r = ApiError (apiError_of e)))
    \<and> (fst (api env config w) = Inr resp \<longrightarrow> (\<exists>h c. adapter env h c = Inr resp))"
  have ?P
  proof (cases "adapter env (trace w @ [Dispatch ?c1]) ?c1")
    case (Inr resp)
    show ?thesis
      using Inr by (auto simp: api_fulfilled[OF Inr] dispatches_def refresh_calls_def)
  next
    case (Inl e)
    show ?thesis
    proof (cases "map_option status (err_response e) \<noteq> Some 401 \<or> cfg_retry config
         \<or> \<not> truthy_item (localStorage w storageKeys_refreshToken)")
      case True
      show ?thesis
        using Inl by (auto simp: api_rejected_plain[OF Inl True] dispatches_def refresh_calls_def)
    next
      case False
      then obtain t where t: "localStorage w storageKeys_refreshToken = Some t" "t \<noteq> []"
        by (cases "localStorage w storageKeys_refreshToken") auto
      from False have s: "map_option status (err_response e) = Some 401" and nr: "\<not> cfg_retry config"
        by auto
      show ?thesis
      proof (cases "refreshed_data (refresh_endpoint env (trace w @ [Dispatch ?c1, RefreshPost t]) t)")
        case None
        show ?thesis
          using Inl
          by (auto simp: api_refresh_failed[OF Inl s nr t None] dispatches_def refresh_calls_def)
      next
        case (Some d)
        let ?req = "?c1\<lparr>cfg_retry := True,
                headers := set_header ''Authorization''
                             (''Bearer '' @ ToString env (js_member (Some d) ''access''))
                             (headers ?c1)\<rparr>"
        let ?w4 = "w\<lparr>trace := trace w @ [Dispatch ?c1, RefreshPost t],
               localStorage := (localStorage w)(storageKeys_accessToken \<mapsto>
                                    ToString env (js_member (Some d) ''access''))\<rparr>"
        have eq: "api env config w = api env ?req ?w4"
          by (rule api_refreshed[OF Inl s nr t Some])
        have r: "cfg_retry ?req" by simp
        show ?thesis
          unfolding eq
          using api_retried_effects[OF r, of env ?w4]
          by (auto simp: dispatches_def refresh_calls_def)
      qed
    qed
  qed
  then show "cache (snd (api env config w)) = cache w"
    and "dispatches (snd (api env config w)) \<le> dispatches w + 2"
    and "refresh_calls (snd (api env config w)) \<le> refresh_calls w + 1"
    and "localStorage (snd (api env config w)) = localStorage w
         \<or> (\<exists>s. localStorage (snd (api env config w)) = (localStorage w)(storageKeys_accessToken \<mapsto> s))
         \<or> (isl (fst (api env config w))
             \<and> localStorage (snd (api env config w)) = clear_credentials (localStorage w))"
    and "fst (api env config w) = Inl r \<Longrightarrow> \<exists>h c e. adapter env h c = Inl e \<and> r = ApiError (apiError_of e)"
    and "fst (api env config w) = Inr resp \<Longrightarrow> \<exists>h c. adapter env h c = Inr resp"
    by blast+
qed

lemma snd_response_data: "snd (response_data res) = snd res"
  by (cases res) (auto simp: response_data_def split: sum.splits)

subsection \<open>At most one replay\<close>

text \<open>
  C2.  One call of the instance dispatches the request at most twice (the original and at
  most one replay) and issues at most one refresh call.  A request that carries the
  \<open>_retry\<close> mark, as every replayed request does, is dispatched exactly once and
  triggers no refresh, whatever the server answers (a 401 included).
\<close>

theorem auth_retry_at_most_once:
  "dispatches (snd (api env config w)) \<le> dispatches w + 2
   \<and> refresh_calls (snd (api env config w)) \<le> refresh_calls w + 1
   \<and> (cfg_retry config \<longrightarrow>
        dispatches (snd (api env config w)) = dispatches w + 1
        \<and> refresh_calls (snd (api env config w)) = refresh_calls w)"
  using api_effects(2,3)[of env config w] api_retried_effects(4,5)[of config env w]
  by simp

lemma always_401_replay:
  "fst (api always_401 default_config logged_in) = Inl (ApiError (apiError_of unauthorized))
   \<and> dispatches (snd (api always_401 default_config logged_in)) = 2
   \<and> refresh_calls (snd (api always_401 default_config logged_in)) = 1"
proof -
  have a: "adapter always_401 h c = Inl unauthorized" for h c
    by (simp add: always_401_def)
  have eq: "api always_401 default_config logged_in =
        api always_401
          ((request_fulfilled always_401 default_config logged_in)\<lparr>
             cfg_retry := True,
             headers := set_header ''Authorization''
                          (''Bearer '' @ ToString always_401 (js_member (Some (JObj [(''access'', JStr ''new'')])) ''access''))
                          (headers (request_fulfilled always_401 default_config logged_in))\<rparr>)
          (logged_in\<lparr>trace := trace logged_in @ [Dispatch (request_fulfilled always_401 default_config logged_in), RefreshPost ''rt''],
             localStorage := (localStorage logged_in)(storageKeys_accessToken \<mapsto>
                               ToString always_401 (js_member (Some (JObj [(''access'', JStr ''new'')])) ''access''))\<rparr>)"
    by (rule api_refreshed[OF a])
       (simp_all add: unauthorized_def default_config_def logged_in_def always_401_def
          refreshed_data_def storageKeys_refreshToken_def storageKeys_accessToken_def storageKeys_user_def)
  show ?thesis
    unfolding eq
    by (subst api_retried, simp, simp add: a dispatches_def refresh_calls_def logged_in_def)+
qed

text \<open>
  A marked request is dispatched once and never refreshed; an unmarked one that meets 401
  on the original and on the replay is dispatched twice, with one refresh call.
\<close>

theorem auth_retry_at_most_once_witness:
  "cfg_retry replayed_request
   \<and> dispatches (snd (api always_401 replayed_request logged_in)) = 1
   \<and> refresh_calls (snd (api always_401 replayed_request logged_in)) = 0
   \<and> dispatches (snd (api always_401 default_config logged_in)) = 2
   \<and> refresh_calls (snd (api always_401 default_config logged_in)) = 1"
  using auth_retry_at_most_once [of always_401 replayed_request logged_in] always_401_replay
  by (simp add: replayed_request_def logged_in_def dispatches_def refresh_calls_def)

subsection \<open>Refresh failure\<close>

text \<open>
  C4 (amended).  When a request not yet marked meets a 401 and either no refresh token
  is stored or the refresh call fails, the request is rejected with the normalized
  \<open>apiError\<close> built from the original 401 error, and it is not replayed: exactly one
  dispatch is made.
\<close>

theorem refresh_failure_rejects:
  assumes "adapter env (trace w @ [Dispatch (request_fulfilled env config w)])
             (request_fulfilled env config w) = Inl e"
    and "map_option status (err_response e) = Some 401"
    and "\<not> cfg_retry config"
    and "\<not> truthy_item (localStorage w storageKeys_refreshToken)
         \<or> (\<exists>t. localStorage w storageKeys_refreshToken = Some t
               \<and> refreshed_data (refresh_endpoint env
                     (trace w @ [Dispatch (request_fulfilled env config w), RefreshPost t]) t) = None)"
  shows "fst (api env config w) = Inl (ApiError (apiError_of e))
         \<and> dispatches (snd (api env config w)) = dispatches w + 1
         \<and> refresh_calls (snd (api env config w)) \<le> refresh_calls w + 1"
proof (cases "truthy_item (localStorage w storageKeys_refreshToken)")
  case False
  then have c: "map_option status (err_response e) \<noteq> Some 401 \<or> cfg_retry config
         \<or> \<not> truthy_item (localStorage w storageKeys_refreshToken)" by simp
  show ?thesis
    by (simp add: api_rejected_plain[OF assms(1) c] dispatches_def refresh_calls_def)
next
  case True
  with assms(4) obtain t where t: "localStorage w storageKeys_refreshToken = Some t" "t \<noteq> []"
    and f: "refreshed_data (refresh_endpoint env
              (trace w @ [Dispatch (request_fulfilled env config w), RefreshPost t]) t) = None"
    by auto
  show ?thesis
    by (simp add: api_refresh_failed[OF assms(1,2,3) t f] dispatches_def refresh_calls_def)
qed

lemma expired_session_adapter: "adapter expired_session h c = Inl unauthorized"
  by (simp add: expired_session_def)

theorem refresh_failure_rejects_witness:
  "fst (api expired_session default_config logged_in) = Inl (ApiError (apiError_of unauthorized))
   \<and> dispatches (snd (api expired_session default_config logged_in)) = 1
   \<and> fst (api expired_session default_config logged_out) = Inl (ApiError (apiError_of unauthorized))
   \<and> dispatches (snd (api expired_session default_config logged_out)) = 1"
proof -
  have 1: "map_option status (err_response unauthorized) = Some 401"
    by (simp add: unauthorized_def)
  have 2: "\<not> cfg_retry default_config"
    by (simp add: default_config_def)
  have 3: "\<not> truthy_item (localStorage logged_in storageKeys_refreshToken)
         \<or> (\<exists>t. localStorage logged_in storageKeys_refreshToken = Some t
               \<and> refreshed_data (refresh_endpoint expired_session
                     (trace logged_in @ [Dispatch (request_fulfilled expired_session default_config logged_in), RefreshPost t]) t) = None)"
    by (simp add: logged_in_def expired_session_def refreshed_data_def)
  have 4: "\<not> truthy_item (localStorage logged_out storageKeys_refreshToken)
         \<or> (\<exists>t. localStorage logged_out storageKeys_refreshToken = Some t
               \<and> refreshed_data (refresh_endpoint expired_session
                     (trace logged_out @ [Dispatch (request_fulfilled expired_session default_config logged_out), RefreshPost t]) t) = None)"
    by (simp add: logged_out_def)
  show ?thesis
    using refresh_failure_rejects[OF expired_session_adapter 1 2 3]
      refresh_failure_rejects[OF expired_session_adapter 1 2 4]
    by (simp add: dispatches_def logged_in_def logged_out_def)
qed

text \<open>
  C4 as stated names an \<open>AuthExpired\<close> error.  The rejection after a failed refresh is the
  normalized 401 error, with the transport's message and code; it equals the rejection of
  a marked request that meets the same 401 without any refresh attempt.
\<close>

theorem refresh_failure_error_is_plain:
  "fst (api expired_session default_config logged_in) =
     Inl (ApiError \<lparr>message = Some (JStr ''Request failed with status code 401''),
                    code = Some (JStr ''ERR_BAD_REQUEST''), details = None\<rparr>)
   \<and> fst (api expired_session replayed_request logged_in) =
     Inl (ApiError \<lparr>message = Some (JStr ''Request failed with status code 401''),
                    code = Some (JStr ''ERR_BAD_REQUEST''), details = None\<rparr>)
   \<and> fst (api expired_session default_config logged_in) =
       fst (api expired_session replayed_request logged_in)"
proof -
  have v: "apiError_of unauthorized =
      \<lparr>message = Some (JStr ''Request failed with status code 401''),
       code = Some (JStr ''ERR_BAD_REQUEST''), details = None\<rparr>"
    by (simp add: apiError_of_def unauthorized_def server_payload_def js_or_def)
  have a: "fst (api expired_session default_config logged_in) = Inl (ApiError (apiError_of unauthorized))"
    by (subst api_refresh_failed[OF expired_session_adapter, where t = "''rt''"])
       (simp_all add: unauthorized_def default_config_def logged_in_def expired_session_def
          refreshed_data_def storageKeys_refreshToken_def storageKeys_accessToken_def storageKeys_user_def)
  have b: "fst (api expired_session replayed_request logged_in) = Inl (ApiError (apiError_of unauthorized))"
    by (subst api_retried) (simp_all add: replayed_request_def expired_session_adapter)
  show ?thesis using a b v by simp
qed

subsection \<open>Logout after a failed refresh\<close>

lemma notify_each_calls:
  "fst (notify_each i listeners a u w) = map (\<lambda>j. Notified j a u) [i..<i + length listeners]"
proof (induction listeners arbitrary: i w)
  case Nil
  show ?case by simp
next
  case (Cons l ls)
  have "[i..<i + length (l # ls)] = i # [Suc i..<Suc i + length ls]"
    by (simp add: upt_conv_Cons del: upt_Suc)
  then show ?case
    by (simp add: case_prod_beta Cons.IH del: upt_Suc)
qed

lemma clear_credentials_keys:
  "clear_credentials store storageKeys_accessToken = None"
  "clear_credentials store storageKeys_refreshToken = None"
  "clear_credentials store storageKeys_user = None"
  by (simp_all add: clear_credentials_def)

lemma notify_logged_out:
  assumes "localStorage w storageKeys_user = None"
  shows "fst (AuthStateManager_notifyStateChange env listeners w) =
           map (\<lambda>j. Notified j False JNull) [0..<length listeners]"
  using assms
  by (simp add: AuthStateManager_notifyStateChange_def AuthService_getLocalUser_def
        AuthService_isAuthenticated_def notify_each_calls)

lemma cleared_is_logged_out:
  assumes "localStorage w' = clear_credentials store" and "location_href w' = ''/auth/login''"
    and "cache w' = cache w"
  shows "logged_out_keeping_cache env listeners w w'"
proof -
  have u: "localStorage w' storageKeys_user = None"
    by (simp add: assms(1) clear_credentials_keys)
  show ?thesis
    unfolding logged_out_keeping_cache_def
    using notify_logged_out[OF u, of env listeners] assms(2,3)
    by (simp add: assms(1) clear_credentials_keys AuthService_isAuthenticated_def)
qed

lemma isTokenExpiringSoon_frame:
  "localStorage (snd (AuthService_isTokenExpiringSoon env now w)) = localStorage w"
  "cache (snd (AuthService_isTokenExpiringSoon env now w)) = cache w"
  by (simp_all add: AuthService_isTokenExpiringSoon_def split: option.splits)

lemma refreshToken_cache: "cache (snd (AuthService_refreshToken env w)) = cache w"
proof -
  have "cache (snd (ApiService_post env u d config w)) = cache w" for u d config
    by (simp add: ApiService_post_def snd_response_data api_effects(1))
  then show ?thesis
    by (auto simp: AuthService_refreshToken_def case_prod_beta split: option.splits sum.splits)
qed

lemma autoRefreshToken_failed:
  assumes "fst (AuthService_isTokenExpiringSoon env now w)"
    and "isl (fst (AuthService_refreshToken env (snd (AuthService_isTokenExpiringSoon env now w))))"
  shows "localStorage (AuthService_autoRefreshToken env now w) =
           clear_credentials (localStorage (snd (AuthService_refreshToken env
              (snd (AuthService_isTokenExpiringSoon env now w)))))"
    and "location_href (AuthService_autoRefreshToken env now w) = ''/auth/login''"
    and "cache (AuthService_autoRefreshToken env now w) = cache w"
proof -
  let ?w0 = "snd (AuthService_isTokenExpiringSoon env now w)"
  obtain res w1 where r: "AuthService_refreshToken env ?w0 = (res, w1)"
    by (cases "AuthService_refreshToken env ?w0")
  with assms(2) obtain error where e: "res = Inl error" by (cases res) auto
  have c: "cache w1 = cache w"
    using refreshToken_cache[of env ?w0] r by (simp add: isTokenExpiringSoon_frame)
  have s: "AuthService_isTokenExpiringSoon env now w = (True, ?w0)"
    using assms(1) by (simp add: prod_eq_iff)
  have a: "AuthService_autoRefreshToken env now w =
      (AuthService_clearLocalStorage
         (w1\<lparr>trace := trace w1 @ [ConsoleError ''Auto refresh token failed:'']\<rparr>))
      \<lparr>location_href := ''/auth/login''\<rparr>"
    unfolding AuthService_autoRefreshToken_def by (subst s) (simp add: r e)
  show "localStorage (AuthService_autoRefreshToken env now w) =
           clear_credentials (localStorage (snd (AuthService_refreshToken env ?w0)))"
    by (simp add: a r AuthService_clearLocalStorage_def)
  show "location_href (AuthService_autoRefreshToken env now w) = ''/auth/login''"
    by (simp add: a)
  show "cache (AuthService_autoRefreshToken env now w) = cache w"
    by (simp add: a c AuthService_clearLocalStorage_def)
qed

text \<open>
  C5 (amended).  A failed refresh call, in the 401 handler as well as in
  \<open>autoRefreshToken\<close>, ends in the logged-out state: the access token, the refresh token
  and the user snapshot are removed from \<open>localStorage\<close> and the page is sent to the login
  route, so \<open>isAuthenticated\<close> is false and \<open>notifyStateChange\<close> calls every listener with
  \<open>(false, null)\<close>.  The request cache is left as it was.
\<close>

theorem refresh_failure_clears_credentials:
  "(adapter env (trace w @ [Dispatch (request_fulfilled env config w)])
       (request_fulfilled env config w) = Inl e
    \<and> map_option status (err_response e) = Some 401 \<and> \<not> cfg_retry config
    \<and> localStorage w storageKeys_refreshToken = Some t \<and> t \<noteq> []
    \<and> refreshed_data (refresh_endpoint env
         (trace w @ [Dispatch (request_fulfilled env config w), RefreshPost t]) t) = None
    \<longrightarrow> logged_out_keeping_cache env listeners w (snd (api env config w)))
   \<and> (fst (AuthService_isTokenExpiringSoon env now w)
    \<and> isl (fst (AuthService_refreshToken env (snd (AuthService_isTokenExpiringSoon env now w))))
    \<longrightarrow> logged_out_keeping_cache env listeners w (AuthService_autoRefreshToken env now w))"
proof (intro conjI impI)
  assume h: "adapter env (trace w @ [Dispatch (request_fulfilled env config w)])
       (request_fulfilled env config w) = Inl e
    \<and> map_option status (err_response e) = Some 401 \<and> \<not> cfg_retry config
    \<and> localStorage w storageKeys_refreshToken = Some t \<and> t \<noteq> []
    \<and> refreshed_data (refresh_endpoint env
         (trace w @ [Dispatch (request_fulfilled env config w), RefreshPost t]) t) = None"
  then have eq: "api env config w =
           (Inl (ApiError (apiError_of e)),
            w\<lparr>localStorage := clear_credentials (localStorage w),
              location_href := ''/auth/login'',
              trace := trace w @ [Dispatch (request_fulfilled env config w), RefreshPost t,
                                  ConsoleError ''[API Response Error]'']\<rparr>)"
    by (intro api_refresh_failed) auto
  show "logged_out_keeping_cache env listeners w (snd (api env config w))"
    by (rule cleared_is_logged_out[where store = "localStorage w"]) (simp_all add: eq)
next
  assume h: "fst (AuthService_isTokenExpiringSoon env now w)
    \<and> isl (fst (AuthService_refreshToken env (snd (AuthService_isTokenExpiringSoon env now w))))"
  then have 1: "fst (AuthService_isTokenExpiringSoon env now w)"
    and 2: "isl (fst (AuthService_refreshToken env (snd (AuthService_isTokenExpiringSoon env now w))))"
    by auto
  show "logged_out_keeping_cache env listeners w (AuthService_autoRefreshToken env now w)"
    by (rule cleared_is_logged_out[OF autoRefreshToken_failed[OF 1 2]])
qed

lemma expired_session_rejects: "isl (fst (api expired_session config w))"
proof (cases "fst (api expired_session config w)")
  case (Inl r)
  then show ?thesis by simp
next
  case (Inr resp)
  then show ?thesis
    using api_effects(6)[of expired_session config w resp]
    by (simp add: expired_session_adapter)
qed

theorem refresh_failure_clears_credentials_witness:
  "logged_out_keeping_cache expired_session two_listeners logged_in
     (snd (api expired_session default_config logged_in))
   \<and> fst (AuthStateManager_notifyStateChange expired_session two_listeners
            (snd (api expired_session default_config logged_in))) =
       [Notified 0 False JNull, Notified 1 False JNull]
   \<and> logged_out_keeping_cache expired_session two_listeners logged_in
       (AuthService_autoRefreshToken expired_session 0 logged_in)"
proof -
  have 1: "map_option status (err_response unauthorized) = Some 401"
    by (simp add: unauthorized_def)
  have 2: "\<not> cfg_retry default_config"
    by (simp add: default_config_def)
  have 3: "localStorage logged_in storageKeys_refreshToken = Some ''rt''"
    by (simp add: logged_in_def)
  have 5: "refreshed_data (refresh_endpoint expired_session
           (trace logged_in @ [Dispatch (request_fulfilled expired_session default_config logged_in),
              RefreshPost ''rt'']) ''rt'') = None"
    by (simp add: expired_session_def refreshed_data_def)
  have 6: "[0..<length two_listeners] = [0, 1]"
    by (simp add: two_listeners_def upt_rec)
  have 7: "fst (AuthService_isTokenExpiringSoon expired_session 0 logged_in)"
    by (simp add: AuthService_isTokenExpiringSoon_def logged_in_def expired_session_def)
  have q: "isl (fst (ApiService_post expired_session u d config w))" for u d config w
    using expired_session_rejects[of "(config_or_default config)\<lparr>url := u, http_method := ''post'', body := d\<rparr>" w]
    by (cases "api expired_session ((config_or_default config)\<lparr>url := u, http_method := ''post'', body := d\<rparr>) w")
       (auto simp: ApiService_post_def response_data_def split: sum.splits)
  have p: "\<exists>r w1. ApiService_post expired_session u d config w = (Inl r, w1)" for u d config w
    using q[of u d config w]
    by (cases "ApiService_post expired_session u d config w") (auto simp: isl_def)
  have 8: "isl (fst (AuthService_refreshToken expired_session w))" for w
  proof (cases "localStorage w storageKeys_refreshToken")
    case None
    then show ?thesis by (simp add: AuthService_refreshToken_def)
  next
    case (Some x)
    obtain r w1 where "ApiService_post expired_session apiEndpoints_auth_refresh
        (Some (JObj [(''refresh'', JStr x)])) None w = (Inl r, w1)"
      using p by blast
    with Some show ?thesis by (simp add: AuthService_refreshToken_def)
  qed
  have l: "logged_out_keeping_cache expired_session two_listeners logged_in
     (snd (api expired_session default_config logged_in))
     \<and> logged_out_keeping_cache expired_session two_listeners logged_in
       (AuthService_autoRefreshToken expired_session 0 logged_in)"
    using refresh_failure_clears_credentials[of expired_session logged_in default_config unauthorized
        "''rt''" two_listeners 0] expired_session_adapter 1 2 3 5 7 8
    by simp
  then show ?thesis
    using 6 by (simp add: logged_out_keeping_cache_def)
qed

text \<open>
  C5 as stated fails on the cache: after a failed refresh the cached entry is still
  there, whereas \<open>clear()\<close> would have removed it.
\<close>

theorem refresh_failure_keeps_cache:
  "cache (snd (api expired_session default_config logged_in)) ''k'' =
     Some \<lparr>data = Some (JStr ''v''), timestamp = 0, ttl = 10\<rparr>
   \<and> RequestCache_clear (cache logged_in) ''k'' = None"
proof -
  have "cache (snd (api expired_session default_config logged_in)) = cache logged_in"
    by (subst api_refresh_failed[OF expired_session_adapter, where t = "''rt''"])
       (simp_all add: unauthorized_def default_config_def logged_in_def expired_session_def
          refreshed_data_def storageKeys_refreshToken_def storageKeys_accessToken_def storageKeys_user_def)
  then show ?thesis
    by (simp add: logged_in_def c3_cache_def RequestCache_set_def RequestCache_clear_def)
qed

subsection \<open>What a successful refresh writes\<close>

lemma api_refreshed_storage:
  assumes "adapter env (trace w @ [Dispatch (request_fulfilled env config w)]) (request_fulfilled env config w) = Inl e"
    and "map_option status (err_response e) = Some 401" and "\<not> cfg_retry config"
    and "localStorage w storageKeys_refreshToken = Some t" and "t \<noteq> []"
    and "refreshed_data (refresh_endpoint env
           (trace w @ [Dispatch (request_fulfilled env config w), RefreshPost t]) t) = Some d"
  shows "localStorage (snd (api env config w)) =
           (localStorage w)(storageKeys_accessToken \<mapsto> ToString env (js_member (Some d) ''access''))"
  by (simp add: api_refreshed[OF assms] api_retried_effects(2))

lemma refreshToken_storage:
  assumes "AuthService_refreshToken env w = (Inr a, w')"
  shows "localStorage w' = (localStorage w)(storageKeys_accessToken \<mapsto> ToString env a)"
proof -
  from assms obtain t where t: "localStorage w storageKeys_refreshToken = Some t" "t \<noteq> []"
    by (auto simp: AuthService_refreshToken_def split: option.splits if_splits)
  let ?c = "(config_or_default None)\<lparr>url := apiEndpoints_auth_refresh, http_method := ''post'',
               body := Some (JObj [(''refresh'', JStr t)])\<rparr>"
  obtain res w1 where r: "api env ?c w = (res, w1)" by (cases "api env ?c w")
  with assms t obtain resp where res: "res = Inr resp"
    and w': "w' = w1\<lparr>localStorage := (localStorage w1)(storageKeys_accessToken \<mapsto> ToString env a)\<rparr>"
    by (auto simp: AuthService_refreshToken_def ApiService_post_def response_data_def
             split: sum.splits if_splits)
  have "localStorage w1 = localStorage w
        \<or> (\<exists>s. localStorage w1 = (localStorage w)(storageKeys_accessToken \<mapsto> s))"
    using api_effects(4)[of env ?c w] r res by auto
  then show ?thesis
    using w' by auto
qed

text \<open>
  C9.  On the path of the 401 handler where the refresh call succeeds, the whole call of
  the instance (replay included) leaves \<open>localStorage\<close> equal to the old one with the
  access-token key set to the new token: the refresh-token key and the user key are
  unchanged.  The same holds for \<open>AuthService.refreshToken\<close> whenever it returns.
\<close>

theorem refresh_writes_access_token_only:
  "(adapter env (trace w @ [Dispatch (request_fulfilled env config w)])
       (request_fulfilled env config w) = Inl e
    \<and> map_option status (err_response e) = Some 401 \<and> \<not> cfg_retry config
    \<and> localStorage w storageKeys_refreshToken = Some t \<and> t \<noteq> []
    \<and> refreshed_data (refresh_endpoint env
         (trace w @ [Dispatch (request_fulfilled env config w), RefreshPost t]) t) = Some d
    \<longrightarrow> localStorage (snd (api env config w)) =
          (localStorage w)(storageKeys_accessToken \<mapsto> ToString env (js_member (Some d) ''access''))
        \<and> localStorage (snd (api env config w)) storageKeys_refreshToken =
            localStorage w storageKeys_refreshToken
        \<and> localStorage (snd (api env config w)) storageKeys_user = localStorage w storageKeys_user)
   \<and> (AuthService_refreshToken env w = (Inr a, w')
    \<longrightarrow> localStorage w' = (localStorage w)(storageKeys_accessToken \<mapsto> ToString env a)
        \<and> localStorage w' storageKeys_refreshToken = localStorage w storageKeys_refreshToken
        \<and> localStorage w' storageKeys_user = localStorage w storageKeys_user)"
proof (intro conjI impI)
  assume h: "adapter env (trace w @ [Dispatch (request_fulfilled env config w)])
       (request_fulfilled env config w) = Inl e
    \<and> map_option status (err_response e) = Some 401 \<and> \<not> cfg_retry config
    \<and> localStorage w storageKeys_refreshToken = Some t \<and> t \<noteq> []
    \<and> refreshed_data (refresh_endpoint env
         (trace w @ [Dispatch (request_fulfilled env config w), RefreshPost t]) t) = Some d"
  then have s: "localStorage (snd (api env config w)) =
          (localStorage w)(storageKeys_accessToken \<mapsto> ToString env (js_member (Some d) ''access''))"
    by (intro api_refreshed_storage) auto
  show "localStorage (snd (api env config w)) =
          (localStorage w)(storageKeys_accessToken \<mapsto> ToString env (js_member (Some d) ''access''))"
    by (rule s)
  show "localStorage (snd (api env config w)) storageKeys_refreshToken =
            localStorage w storageKeys_refreshToken"
    by (simp add: s)
  show "localStorage (snd (api env config w)) storageKeys_user = localStorage w storageKeys_user"
    by (simp add: s)
next
  assume h: "AuthService_refreshToken env w = (Inr a, w')"
  note s = refreshToken_storage[OF h]
  show "localStorage w' = (localStorage w)(storageKeys_accessToken \<mapsto> ToString env a)"
    by (rule s)
  show "localStorage w' storageKeys_refreshToken = localStorage w storageKeys_refreshToken"
    by (simp add: s)
  show "localStorage w' storageKeys_user = localStorage w storageKeys_user"
    by (simp add: s)
qed

lemma authorization_header:
  "localStorage w storageKeys_accessToken = Some token \<Longrightarrow> token \<noteq> [] \<Longrightarrow>
   map_of (headers (request_fulfilled env config w)) ''Authorization'' = Some (''Bearer '' @ token)"
  by (simp add: request_fulfilled_def set_header_def)

lemma renewing_api:
  assumes "\<not> cfg_retry config"
  shows "fst (api renewing config logged_in) =
           Inr \<lparr>status = 200, resp_data = Some (JObj [(''access'', JStr ''fresh'')])\<rparr>"
proof -
  have old: "localStorage logged_in storageKeys_accessToken = Some ''old''"
    by (simp add: logged_in_def)
  have a: "adapter renewing (trace logged_in @ [Dispatch (request_fulfilled renewing config logged_in)])
             (request_fulfilled renewing config logged_in) = Inl unauthorized"
    by (simp add: renewing_def authorization_header[OF old])
  have eq: "api renewing config logged_in =
        api renewing
          ((request_fulfilled renewing config logged_in)\<lparr>
             cfg_retry := True,
             headers := set_header ''Authorization''
                          (''Bearer '' @ ToString renewing (js_member (Some (JObj [(''access'', JStr ''new'')])) ''access''))
                          (headers (request_fulfilled renewing config logged_in))\<rparr>)
          (logged_in\<lparr>trace := trace logged_in @ [Dispatch (request_fulfilled renewing config logged_in), RefreshPost ''rt''],
             localStorage := (localStorage logged_in)(storageKeys_accessToken \<mapsto>
                               ToString renewing (js_member (Some (JObj [(''access'', JStr ''new'')])) ''access''))\<rparr>)"
    by (rule api_refreshed[OF a])
       (simp_all add: assms unauthorized_def logged_in_def renewing_def refreshed_data_def)
  have new: "ToString renewing (js_member (Some (JObj [(''access'', JStr ''new'')])) ''access'') = ''new''"
    by (simp add: renewing_def string_of_def)
  show ?thesis
    unfolding eq new
    by (subst api_retried, simp)
       (simp add: renewing_def authorization_header[where token = "''new''"])
qed

theorem refresh_writes_access_token_only_witness:
  "localStorage (snd (api renewing default_config logged_in)) storageKeys_accessToken = Some ''new''
   \<and> localStorage (snd (api renewing default_config logged_in)) storageKeys_refreshToken = Some ''rt''
   \<and> localStorage (snd (api renewing default_config logged_in)) storageKeys_user = Some ''{}''
   \<and> fst (AuthService_refreshToken renewing logged_in) = Inr (Some (JStr ''fresh''))
   \<and> localStorage (snd (AuthService_refreshToken renewing logged_in)) storageKeys_accessToken = Some ''fresh''
   \<and> localStorage (snd (AuthService_refreshToken renewing logged_in)) storageKeys_refreshToken = Some ''rt''
   \<and> localStorage (snd (AuthService_refreshToken renewing logged_in)) storageKeys_user = Some ''{}''"
proof -
  have old: "localStorage logged_in storageKeys_accessToken = Some ''old''"
    by (simp add: logged_in_def)
  have a: "adapter renewing (trace logged_in @ [Dispatch (request_fulfilled renewing default_config logged_in)])
       (request_fulfilled renewing default_config logged_in) = Inl unauthorized"
    by (simp add: renewing_def authorization_header[OF old])
  have b: "map_option status (err_response unauthorized) = Some 401"
    by (simp add: unauthorized_def)
  have c: "\<not> cfg_retry default_config"
    by (simp add: default_config_def)
  have d: "localStorage logged_in storageKeys_refreshToken = Some ''rt''"
    by (simp add: logged_in_def)
  have e: "refreshed_data (refresh_endpoint renewing
         (trace logged_in @ [Dispatch (request_fulfilled renewing default_config logged_in), RefreshPost ''rt'']) ''rt'')
        = Some (JObj [(''access'', JStr ''new'')])"
    by (simp add: renewing_def refreshed_data_def)
  have h1: "adapter renewing (trace logged_in @ [Dispatch (request_fulfilled renewing default_config logged_in)])
       (request_fulfilled renewing default_config logged_in) = Inl unauthorized
    \<and> map_option status (err_response unauthorized) = Some 401 \<and> \<not> cfg_retry default_config
    \<and> localStorage logged_in storageKeys_refreshToken = Some ''rt'' \<and> ''rt'' \<noteq> []
    \<and> refreshed_data (refresh_endpoint renewing
         (trace logged_in @ [Dispatch (request_fulfilled renewing default_config logged_in), RefreshPost ''rt'']) ''rt'')
        = Some (JObj [(''access'', JStr ''new'')])"
    using a b c d e by blast
  let ?post = "(config_or_default None)\<lparr>url := apiEndpoints_auth_refresh, http_method := ''post'',
               body := Some (JObj [(''refresh'', JStr ''rt'')])\<rparr>"
  have "\<not> cfg_retry ?post"
    by (simp add: config_or_default_def default_config_def)
  then obtain w1 where "api renewing ?post logged_in =
      (Inr \<lparr>status = 200, resp_data = Some (JObj [(''access'', JStr ''fresh'')])\<rparr>, w1)"
    using renewing_api[of ?post] by (cases "api renewing ?post logged_in") simp
  then have f: "fst (AuthService_refreshToken renewing logged_in) = Inr (Some (JStr ''fresh''))"
    by (simp add: AuthService_refreshToken_def ApiService_post_def response_data_def d nullish_def)
  then have h2: "AuthService_refreshToken renewing logged_in =
      (Inr (Some (JStr ''fresh'')), snd (AuthService_refreshToken renewing logged_in))"
    by (simp add: prod_eq_iff)
  have g: "ToString renewing (js_member (Some (JObj [(''access'', JStr ''new'')])) ''access'') = ''new''"
    "ToString renewing (Some (JStr ''fresh'')) = ''fresh''"
    "ToString renewing (Some (JStr ''new'')) = ''new''"
    by (simp_all add: renewing_def string_of_def)
  have l: "localStorage logged_in storageKeys_user = Some ''{}''"
    by (simp add: logged_in_def)
  show ?thesis
    using refresh_writes_access_token_only[of renewing logged_in default_config unauthorized "''rt''"
        "JObj [(''access'', JStr ''new'')]" "Some (JStr ''fresh'')" "snd (AuthService_refreshToken renewing logged_in)"]
      h1 h2 f
    by (simp add: g d l)
qed

subsection \<open>The normalized error\<close>

lemma chain_request_error:
  assumes "err_response error = None"
  shows "interceptor_chain env (Inl error) w =
           (Inl (ApiError (apiError_of error)),
            w\<lparr>trace := trace w @ [ConsoleError ''[API Request Error]'',
                                   ConsoleError ''[API Response Error]'']\<rparr>)"
  by (subst interceptor_chain.simps)
     (simp add: assms request_stage_def request_rejected_def dispatch_stage_def
        response_rejected_begin_def settle_apiError_def reject_apiError_def)

lemma request_failed_nonempty: "request_failed \<noteq> []"
  by (simp add: request_failed_def)

text \<open>
  C8 (amended).  Every rejection of a call of the instance is an \<open>apiError\<close> built from an
  error of the transport, and an error that enters the chain on the request side (where
  the request interceptor's handler passes it on unchanged) is normalized by the response
  interceptor as well.  \<open>message\<close> is the server's \<open>message\<close> member when truthy, else the
  error's own message, else the fixed fallback, and is never empty.  \<open>code\<close> is the
  server's \<open>code\<close> member when truthy, else the error's code.  \<open>details\<close> is the server
  payload's own \<open>details\<close> member when that is truthy, and the raw server payload
  otherwise (\<open>undefined\<close> when there is none).
\<close>

theorem errors_are_normalized:
  "(fst (api env config w) = Inl r \<longrightarrow>
      (\<exists>h c e. adapter env h c = Inl e \<and> r = ApiError (apiError_of e)))
   \<and> (err_response error = None \<longrightarrow>
      fst (interceptor_chain env (Inl error) w) = Inl (ApiError (apiError_of error)))
   \<and> message (apiError_of error) =
       (if truthy (js_member (server_payload error) ''message'')
        then js_member (server_payload error) ''message''
        else if truthy (err_message error) then err_message error
        else Some (JStr request_failed))
   \<and> truthy (message (apiError_of error))
   \<and> code (apiError_of error) =
       (if truthy (js_member (server_payload error) ''code'')
        then js_member (server_payload error) ''code''
        else err_code error)
   \<and> details (apiError_of error) =
       (if truthy (js_member (server_payload error) ''details'')
        then js_member (server_payload error) ''details''
        else server_payload error)"
proof (intro conjI impI)
  assume "fst (api env config w) = Inl r"
  then show "\<exists>h c e. adapter env h c = Inl e \<and> r = ApiError (apiError_of e)"
    by (rule api_effects(5))
next
  assume "err_response error = None"
  then show "fst (interceptor_chain env (Inl error) w) = Inl (ApiError (apiError_of error))"
    by (simp add: chain_request_error)
next
  show "message (apiError_of error) =
       (if truthy (js_member (server_payload error) ''message'')
        then js_member (server_payload error) ''message''
        else if truthy (err_message error) then err_message error
        else Some (JStr request_failed))"
    by (simp add: apiError_of_def js_or_def)
  show "truthy (message (apiError_of error))"
    by (simp add: apiError_of_def js_or_def request_failed_nonempty)
  show "code (apiError_of error) =
       (if truthy (js_member (server_payload error) ''code'')
        then js_member (server_payload error) ''code''
        else err_code error)"
    by (simp add: apiError_of_def js_or_def)
  show "details (apiError_of error) =
       (if truthy (js_member (server_payload error) ''details'')
        then js_member (server_payload error) ''details''
        else server_payload error)"
    by (simp add: apiError_of_def js_or_def)
qed

theorem errors_are_normalized_witness:
  "fst (api expired_session replayed_request logged_in) = Inl (ApiError (apiError_of unauthorized))
   \<and> fst (interceptor_chain expired_session (Inl network_down) logged_in) =
       Inl (ApiError \<lparr>message = Some (JStr ''Network Error''), code = Some (JStr ''ERR_NETWORK''),
                      details = None\<rparr>)
   \<and> message (apiError_of validation_failure) = Some (JStr ''Invalid input'')
   \<and> message (apiError_of unauthorized) = Some (JStr ''Request failed with status code 401'')
   \<and> code (apiError_of validation_failure) = Some (JStr ''ERR_BAD_REQUEST'')
   \<and> details (apiError_of validation_failure) = Some (JObj [(''name'', JStr ''required'')])
   \<and> details (apiError_of unauthorized) = None"
proof -
  have "fst (api expired_session replayed_request logged_in) = Inl (ApiError (apiError_of unauthorized))"
    by (subst api_retried) (simp_all add: replayed_request_def expired_session_adapter)
  then obtain r where r: "fst (api expired_session replayed_request logged_in) = Inl r"
    by blast
  have n: "err_response network_down = None"
    by (simp add: network_down_def)
  have p: "server_payload validation_failure =
      Some (JObj [(''message'', JStr ''Invalid input''), (''details'', JObj [(''name'', JStr ''required'')])])"
    "server_payload unauthorized = None" "server_payload network_down = None"
    by (simp_all add: validation_failure_def unauthorized_def network_down_def server_payload_def)
  have 1: "fst (api expired_session replayed_request logged_in) = Inl (ApiError (apiError_of unauthorized))"
    using errors_are_normalized[of expired_session replayed_request logged_in r] r
    by (auto simp: expired_session_adapter)
  have 2: "fst (interceptor_chain expired_session (Inl network_down) logged_in) =
       Inl (ApiError (apiError_of network_down))"
    using errors_are_normalized[of expired_session replayed_request logged_in r network_down] n by blast
  have m: "err_message network_down = Some (JStr ''Network Error'')"
    "err_code network_down = Some (JStr ''ERR_NETWORK'')"
    "err_message unauthorized = Some (JStr ''Request failed with status code 401'')"
    "err_code validation_failure = Some (JStr ''ERR_BAD_REQUEST'')"
    by (simp_all add: validation_failure_def unauthorized_def network_down_def)
  have 3: "apiError_of network_down =
      \<lparr>message = Some (JStr ''Network Error''), code = Some (JStr ''ERR_NETWORK''), details = None\<rparr>"
    using errors_are_normalized[of expired_session replayed_request logged_in r network_down]
    by (simp add: p m api_error.equality)
  show ?thesis
    using errors_are_normalized[of expired_session replayed_request logged_in r validation_failure]
      errors_are_normalized[of expired_session replayed_request logged_in r unauthorized] 1 2 3
    by (simp add: p m)
qed

text \<open>
  C8 as stated says that \<open>details\<close> carries the raw server payload when present.  For a
  payload that has a truthy \<open>details\<close> member, \<open>details\<close> is that member, not the payload.
\<close>

theorem details_prefers_member:
  "server_payload validation_failure =
     Some (JObj [(''message'', JStr ''Invalid input''), (''details'', JObj [(''name'', JStr ''required'')])])
   \<and> details (apiError_of validation_failure) = Some (JObj [(''name'', JStr ''required'')])
   \<and> details (apiError_of validation_failure) \<noteq> server_payload validation_failure"
  by (simp add: apiError_of_def server_payload_def validation_failure_def js_or_def)

subsection \<open>Requests that fail together\<close>

lemma begin_issues_refresh:
  assumes "map_option status (err_response e) = Some 401"
    and "err_config e = Some c" and "\<not> cfg_retry c"
    and "localStorage w storageKeys_refreshToken = Some t" and "t \<noteq> []"
  shows "response_rejected_begin e w =
           (AwaitRefresh (c\<lparr>cfg_retry := True\<rparr>) t, w\<lparr>trace := trace w @ [RefreshPost t]\<rparr>)"
  using assms by (simp add: response_rejected_begin_def)

lemma interceptor_chain_parts:
  "interceptor_chain env input w =
     (case dispatch_stage env (request_stage env input w) of
        (Inr r, w2) \<Rightarrow> (Inr r, w2)
      | (Inl error, w2) \<Rightarrow>
          (case response_rejected_begin error w2 of
             (p, w3) \<Rightarrow>
               resume_handler env
                 (case p of AwaitRefresh originalRequest refreshToken \<Rightarrow>
                              refresh_endpoint env (trace w3) refreshToken
                          | Settled r \<Rightarrow> Inl error)
                 error p w3))"
  by (subst interceptor_chain.simps)
     (simp add: resume_handler_def api_def split: prod.splits sum.splits pending.splits resumed.splits)

lemma dispatched_append: "dispatched (xs @ ys) = dispatched xs @ dispatched ys"
  by (induction xs rule: dispatched.induct) auto

lemma request_fulfilled_url: "url (request_fulfilled env config w) = url config"
  by (simp add: request_fulfilled_def Let_def split: option.splits)

lemma api_retried_dispatched:
  assumes "cfg_retry config"
  shows "dispatched (trace (snd (api env config w))) = dispatched (trace w) @ [url config]"
  by (simp add: api_retried[OF assms] dispatched_append request_fulfilled_url split: sum.splits)

lemma resume_handler_failed:
  assumes "refreshed_data outcome = None"
  shows "resume_handler env outcome error (AwaitRefresh req tok) w =
           (Inl (ApiError (apiError_of error)),
            w\<lparr>localStorage := clear_credentials (localStorage w), location_href := ''/auth/login'',
              trace := trace w @ [ConsoleError ''[API Response Error]'']\<rparr>)"
  by (simp add: resume_handler_def response_rejected_resume_def reject_apiError_def assms)

lemma resume_handler_refreshed:
  assumes "refreshed_data outcome = Some d"
  shows "resume_handler env outcome error (AwaitRefresh req tok) w =
           api env
             (req\<lparr>headers := set_header ''Authorization''
                               (''Bearer '' @ ToString env (js_member (Some d) ''access'')) (headers req)\<rparr>)
             (w\<lparr>localStorage := (localStorage w)(storageKeys_accessToken \<mapsto>
                                   ToString env (js_member (Some d) ''access''))\<rparr>)"
  by (simp add: resume_handler_def response_rejected_resume_def assms Let_def)

lemma resume_handler_effects:
  assumes "awaiting_marked p"
  shows "dispatched (trace (snd (resume_handler env outcome error p w))) =
           dispatched (trace w) @ (if entry_refreshed (p, error, outcome) then [entry_url (p, error, outcome)] else [])"
    and "refresh_calls (snd (resume_handler env outcome error p w)) = refresh_calls w"
    and "\<not> entry_refreshed (p, error, outcome) \<Longrightarrow>
           fst (resume_handler env outcome error p w) = Inl (ApiError (apiError_of error))"
proof -
  from assms obtain req tok where p: "p = AwaitRefresh req tok" and m: "cfg_retry req"
    by (cases p) auto
  let ?P = "dispatched (trace (snd (resume_handler env outcome error p w))) =
           dispatched (trace w) @ (if entry_refreshed (p, error, outcome) then [entry_url (p, error, outcome)] else [])
    \<and> refresh_calls (snd (resume_handler env outcome error p w)) = refresh_calls w
    \<and> (\<not> entry_refreshed (p, error, outcome) \<longrightarrow>
           fst (resume_handler env outcome error p w) = Inl (ApiError (apiError_of error)))"
  have ?P
  proof (cases "refreshed_data outcome")
    case None
    show ?thesis
      by (simp add: p resume_handler_failed[OF None] None dispatched_append refresh_calls_def)
  next
    case (Some d)
    have r: "cfg_retry (req\<lparr>headers := set_header ''Authorization''
                               (''Bearer '' @ ToString env (js_member (Some d) ''access'')) (headers req)\<rparr>)"
      using m by simp
    show ?thesis
      unfolding p resume_handler_refreshed[OF Some]
      using api_retried_dispatched[OF r, of env] api_retried_effects(5)[OF r, of env]
      by (simp add: Some) (simp add: refresh_calls_def)
  qed
  then show "dispatched (trace (snd (resume_handler env outcome error p w))) =
           dispatched (trace w) @ (if entry_refreshed (p, error, outcome) then [entry_url (p, error, outcome)] else [])"
    and "refresh_calls (snd (resume_handler env outcome error p w)) = refresh_calls w"
    and "\<not> entry_refreshed (p, error, outcome) \<Longrightarrow>
           fst (resume_handler env outcome error p w) = Inl (ApiError (apiError_of error))"
    by blast+
qed

lemma handlers_resume_effects:
  assumes "list_all (\<lambda>entry. awaiting_marked (fst entry)) settled"
  shows "dispatched (trace (snd (handlers_resume env settled w))) =
           dispatched (trace w) @ map entry_url (filter entry_refreshed settled)
         \<and> refresh_calls (snd (handlers_resume env settled w)) = refresh_calls w
         \<and> length (fst (handlers_resume env settled w)) = length settled"
  using assms
proof (induction settled arbitrary: w)
  case Nil
  show ?case by simp
next
  case (Cons entry settled)
  obtain p error outcome where e: "entry = (p, error, outcome)" by (cases entry)
  from Cons.prems have m: "awaiting_marked p"
    and rest: "list_all (\<lambda>entry. awaiting_marked (fst entry)) settled"
    by (simp_all add: e)
  let ?w1 = "snd (resume_handler env outcome error p w)"
  note h = resume_handler_effects(1,2)[OF m, of env outcome error w]
  note ih = Cons.IH[OF rest, of ?w1]
  show ?case
    using h ih by (simp add: e case_prod_beta)
qed

lemma handlers_resume_rejected:
  assumes "list_all (\<lambda>entry. awaiting_marked (fst entry)) settled"
    and "i < length settled" and "\<not> entry_refreshed (settled ! i)"
  shows "fst (handlers_resume env settled w) ! i = Inl (ApiError (apiError_of (entry_error (settled ! i))))"
  using assms
proof (induction settled arbitrary: w i)
  case Nil
  then show ?case by simp
next
  case (Cons entry settled)
  obtain p error outcome where e: "entry = (p, error, outcome)" by (cases entry)
  from Cons.prems(1) have m: "awaiting_marked p"
    and rest: "list_all (\<lambda>entry. awaiting_marked (fst entry)) settled"
    by (simp_all add: e)
  show ?case
  proof (cases i)
    case 0
    with Cons.prems(3) have "\<not> entry_refreshed (p, error, outcome)" by (simp add: e)
    from resume_handler_effects(3)[OF m this] show ?thesis
      by (simp add: 0 e case_prod_beta)
  next
    case (Suc j)
    with Cons.prems have "j < length settled" "\<not> entry_refreshed (settled ! j)" by simp_all
    from Cons.IH[OF rest this] show ?thesis
      by (simp add: Suc e case_prod_beta)
  qed
qed

lemma handlers_begin_exact:
  assumes "\<forall>e \<in> set errors. map_option status (err_response e) = Some 401"
    and "map err_config errors = map Some cs"
    and "\<forall>c \<in> set cs. \<not> cfg_retry c"
    and "localStorage w storageKeys_refreshToken = Some t" and "t \<noteq> []"
  shows "fst (handlers_begin errors w) = map (\<lambda>c. AwaitRefresh (c\<lparr>cfg_retry := True\<rparr>) t) cs
         \<and> trace (snd (handlers_begin errors w)) = trace w @ replicate (length errors) (RefreshPost t)"
  using assms
proof (induction errors arbitrary: cs w)
  case Nil
  then show ?case by simp
next
  case (Cons e errors)
  from Cons.prems(2) obtain c cs' where cs: "cs = c # cs'" "err_config e = Some c"
    "map err_config errors = map Some cs'"
    by (cases cs) auto
  from Cons.prems(1,3) cs(1) have e: "map_option status (err_response e) = Some 401" "\<not> cfg_retry c"
    by auto
  let ?w1 = "w\<lparr>trace := trace w @ [RefreshPost t]\<rparr>"
  have b: "response_rejected_begin e w = (AwaitRefresh (c\<lparr>cfg_retry := True\<rparr>) t, ?w1)"
    by (rule begin_issues_refresh[OF e(1) cs(2) e(2) Cons.prems(4,5)])
  have "localStorage ?w1 storageKeys_refreshToken = Some t"
    using Cons.prems(4) by simp
  then have ih: "fst (handlers_begin errors ?w1) = map (\<lambda>c. AwaitRefresh (c\<lparr>cfg_retry := True\<rparr>) t) cs'
         \<and> trace (snd (handlers_begin errors ?w1)) = trace ?w1 @ replicate (length errors) (RefreshPost t)"
    using Cons.prems(1,3,5) cs(1,3) by (intro Cons.IH) auto
  show ?case
    using ih by (simp add: b cs(1) case_prod_beta)
qed

lemma replicate_RefreshPost:
  "dispatched (replicate n (RefreshPost t)) = []"
  "filter is_Dispatch (replicate n (RefreshPost t)) = []"
  "length (filter is_RefreshPost (replicate n (RefreshPost t))) = n"
  by (induction n) simp_all

text \<open>
  C1 (amended).  There is no shared pending refresh.  When \<open>N\<close> requests not yet marked
  meet a 401 before any refresh call has settled, and a refresh token is stored, each
  handler issues a refresh call of its own, \<open>N\<close> calls in all, and is left suspended on
  it; up to that point nothing else happens: no request is dispatched again and none is
  rejected.  When the refresh calls then settle, in any order, the requests dispatched
  again are exactly those whose own refresh call succeeded, each once and in the order of
  settlement; a request whose own refresh call failed is rejected with the \<open>apiError\<close>
  of its own 401 error; and no further refresh call is issued.
\<close>

theorem one_refresh_call_per_request:
  assumes "\<forall>e \<in> set errors. map_option status (err_response e) = Some 401"
    and "map err_config errors = map Some cs"
    and "\<forall>c \<in> set cs. \<not> cfg_retry c"
    and "localStorage w storageKeys_refreshToken = Some t" and "t \<noteq> []"
    and "set settled \<subseteq> set (zip (fst (handlers_begin errors w)) (zip errors outcomes))"
  shows "fst (handlers_begin errors w) = map (\<lambda>c. AwaitRefresh (c\<lparr>cfg_retry := True\<rparr>) t) cs
    \<and> trace (snd (handlers_begin errors w)) = trace w @ replicate (length errors) (RefreshPost t)
    \<and> refresh_calls (snd (handlers_begin errors w)) = refresh_calls w + length errors
    \<and> dispatches (snd (handlers_begin errors w)) = dispatches w
    \<and> dispatched (trace (snd (handlers_resume env settled (snd (handlers_begin errors w))))) =
        dispatched (trace w) @ map entry_url (filter entry_refreshed settled)
    \<and> refresh_calls (snd (handlers_resume env settled (snd (handlers_begin errors w)))) =
        refresh_calls w + length errors
    \<and> (\<forall>i < length settled. \<not> entry_refreshed (settled ! i) \<longrightarrow>
          fst (handlers_resume env settled (snd (handlers_begin errors w))) ! i =
            Inl (ApiError (apiError_of (entry_error (settled ! i)))))"
proof -
  let ?w1 = "snd (handlers_begin errors w)"
  note b = handlers_begin_exact[OF assms(1-5)]
  have c: "refresh_calls ?w1 = refresh_calls w + length errors" "dispatches ?w1 = dispatches w"
    "dispatched (trace ?w1) = dispatched (trace w)"
    by (simp_all add: b refresh_calls_def dispatches_def dispatched_append replicate_RefreshPost)
  have m: "list_all (\<lambda>entry. awaiting_marked (fst entry)) settled"
  proof -
    have "awaiting_marked (fst entry)" if "entry \<in> set settled" for entry
    proof -
      from that assms(6) have "entry \<in> set (zip (fst (handlers_begin errors w)) (zip errors outcomes))"
        by blast
      then have "(fst entry, snd entry) \<in> set (zip (fst (handlers_begin errors w)) (zip errors outcomes))"
        by simp
      then have "fst entry \<in> set (fst (handlers_begin errors w))"
        by (rule set_zip_leftD)
      then show ?thesis by (auto simp: b)
    qed
    then show ?thesis by (simp add: list_all_iff)
  qed
  note r = handlers_resume_effects[OF m, of env ?w1]
  show ?thesis
    using b c r handlers_resume_rejected[OF m, of _ env ?w1] by simp
qed


theorem one_refresh_call_per_request_witness:
  "fst (handlers_begin [first_401, second_401] logged_in) =
     [AwaitRefresh (first_config\<lparr>cfg_retry := True\<rparr>) ''rt'',
      AwaitRefresh (second_config\<lparr>cfg_retry := True\<rparr>) ''rt'']
   \<and> trace (snd (handlers_begin [first_401, second_401] logged_in)) = [RefreshPost ''rt'', RefreshPost ''rt'']
   \<and> refresh_calls (snd (handlers_begin [first_401, second_401] logged_in)) = 2
   \<and> dispatches (snd (handlers_begin [first_401, second_401] logged_in)) = 0
   \<and> dispatched (trace (snd (handlers_resume always_401 second_settles_first
        (snd (handlers_begin [first_401, second_401] logged_in))))) = [''/api/v1/auth/profile/'']
   \<and> refresh_calls (snd (handlers_resume always_401 second_settles_first
        (snd (handlers_begin [first_401, second_401] logged_in)))) = 2
   \<and> fst (handlers_resume always_401 second_settles_first
        (snd (handlers_begin [first_401, second_401] logged_in))) ! 1 =
       Inl (ApiError (apiError_of first_401))"
proof -
  have 1: "\<forall>e \<in> set [first_401, second_401]. map_option status (err_response e) = Some 401"
    by (simp add: first_401_def second_401_def unauthorized_def)
  have 2: "map err_config [first_401, second_401] = map Some [first_config, second_config]"
    by (simp add: first_401_def second_401_def first_config_def second_config_def)
  have 3: "\<forall>c \<in> set [first_config, second_config]. \<not> cfg_retry c"
    by (simp add: first_config_def second_config_def default_config_def)
  have 4: "localStorage logged_in storageKeys_refreshToken = Some ''rt''"
    by (simp add: logged_in_def)
  have 5: "''rt'' \<noteq> []" by simp
  have b: "fst (handlers_begin [first_401, second_401] logged_in) =
     [AwaitRefresh (first_config\<lparr>cfg_retry := True\<rparr>) ''rt'',
      AwaitRefresh (second_config\<lparr>cfg_retry := True\<rparr>) ''rt'']"
    using handlers_begin_exact[OF 1 2 3 4 5] by simp
  have 6: "set second_settles_first \<subseteq>
      set (zip (fst (handlers_begin [first_401, second_401] logged_in))
            (zip [first_401, second_401] [Inl unauthorized, renewed]))"
    unfolding b by (simp add: second_settles_first_def)
  have s: "entry_refreshed (second_settles_first ! 0)" "\<not> entry_refreshed (second_settles_first ! 1)"
    "entry_error (second_settles_first ! 1) = first_401"
    "map entry_url (filter entry_refreshed second_settles_first) = [''/api/v1/auth/profile/'']"
    "(1::nat) < length second_settles_first"
    by (simp_all add: second_settles_first_def renewed_def refreshed_data_def second_config_def)
  have l: "trace logged_in = []" "refresh_calls logged_in = 0" "dispatches logged_in = 0"
    by (simp_all add: logged_in_def refresh_calls_def dispatches_def)
  note T = one_refresh_call_per_request[OF 1 2 3 4 5 6, of always_401]
  from T have 7: "fst (handlers_resume always_401 second_settles_first
        (snd (handlers_begin [first_401, second_401] logged_in))) ! 1 =
       Inl (ApiError (apiError_of first_401))"
    using s(2,3,5) by metis
  show ?thesis
    using T 7 by (simp add: s(4) l)
qed

text \<open>
  C1 as stated fails for two requests: two refresh calls are issued, not one.
\<close>

theorem two_requests_two_refresh_calls:
  "refresh_calls logged_in = 0
   \<and> refresh_calls (snd (handlers_begin [first_401, second_401] logged_in)) = 2
   \<and> fst (handlers_begin [first_401, second_401] logged_in) =
       [AwaitRefresh (default_config\<lparr>url := ''/api/v1/documents/'', cfg_retry := True\<rparr>) ''rt'',
        AwaitRefresh (default_config\<lparr>url := ''/api/v1/auth/profile/'', cfg_retry := True\<rparr>) ''rt'']"
  by (simp add: first_401_def second_401_def first_config_def second_config_def unauthorized_def
        default_config_def logged_in_def
        response_rejected_begin_def refresh_calls_def storageKeys_refreshToken_def
        storageKeys_accessToken_def storageKeys_user_def)

subsection \<open>The cached GET\<close>

lemma ApiService_get_cache: "cache (snd (ApiService_get env u config w)) = cache w"
  by (simp add: ApiService_get_def snd_response_data api_effects(1))

lemma RequestCache_get_shrinks:
  "snd (RequestCache_get now key c) k = c k \<or> snd (RequestCache_get now key c) k = None"
  by (simp add: RequestCache_get_def split: option.splits)

lemma cachedApiService_get_failure:
  assumes "fst (cachedApiService_get env now1 now2 u config w) = Inl r"
  shows "cache (snd (cachedApiService_get env now1 now2 u config w)) =
           (if cache_enabled config
            then snd (RequestCache_get now1 (cacheKey_of env u config) (cache w))
            else cache w)"
proof -
  let ?looked = "if cache_enabled config
                    then (case RequestCache_get now1 (cacheKey_of env u config) (cache w) of
                            (v, c) \<Rightarrow> (v, w\<lparr>cache := c\<rparr>))
                    else (None, w)"
  obtain res w2 where g: "ApiService_get env u config (snd ?looked) = (res, w2)"
    by (cases "ApiService_get env u config (snd ?looked)")
  have c: "cache w2 = cache (snd ?looked)"
    using ApiService_get_cache[of env u config "snd ?looked"] g by simp
  show ?thesis
    using assms g c
    by (auto simp: cachedApiService_get_def Let_def case_prod_beta split: if_splits sum.splits)
qed

lemma cachedApiService_get_disabled:
  assumes "\<not> cache_enabled config"
  shows "cache (snd (cachedApiService_get env now1 now2 u config w)) = cache w"
proof -
  obtain res w2 where g: "ApiService_get env u config w = (res, w2)"
    by (cases "ApiService_get env u config w")
  have c: "cache w2 = cache w"
    using ApiService_get_cache[of env u config w] g by simp
  show ?thesis
    using assms g c
    by (auto simp: cachedApiService_get_def Let_def split: sum.splits)
qed

lemma cachedApiService_get_stored:
  assumes "cache_enabled config"
    and "\<not> truthy (fst (RequestCache_get now1 (cacheKey_of env u config) (cache w)))"
    and "fst (cachedApiService_get env now1 now2 u config w) = Inr d"
  shows "cache (snd (cachedApiService_get env now1 now2 u config w)) =
           RequestCache_set now2 (cacheKey_of env u config) d (ttl_of config)
             (snd (RequestCache_get now1 (cacheKey_of env u config) (cache w)))"
proof -
  let ?w1 = "w\<lparr>cache := snd (RequestCache_get now1 (cacheKey_of env u config) (cache w))\<rparr>"
  obtain res w2 where g: "ApiService_get env u config ?w1 = (res, w2)"
    by (cases "ApiService_get env u config ?w1")
  have c: "cache w2 = cache ?w1"
    using ApiService_get_cache[of env u config ?w1] g by simp
  show ?thesis
    using assms g c
    by (auto simp: cachedApiService_get_def Let_def case_prod_beta split: sum.splits)
qed

lemma RequestCache_get_hit:
  "truthy (fst (RequestCache_get now key c)) \<Longrightarrow> snd (RequestCache_get now key c) = c"
  by (auto simp: RequestCache_get_def split: option.splits if_splits)

lemma cachedApiService_get_hit:
  assumes "cache_enabled config"
    and "truthy (fst (RequestCache_get now1 (cacheKey_of env u config) (cache w)))"
  shows "cachedApiService_get env now1 now2 u config w =
           (Inr (fst (RequestCache_get now1 (cacheKey_of env u config) (cache w))), w)"
  using assms RequestCache_get_hit[OF assms(2)]
  by (simp add: cachedApiService_get_def Let_def case_prod_beta)

text \<open>
  C10 (amended).  When \<open>cachedApiService.get\<close> fails, no cache entry is written: the
  cache afterwards is the cache as the lookup left it, so every key holds its previous
  entry or nothing (the lookup evicts an expired entry of the request's key when caching
  is enabled).  With caching disabled the cache is never changed.  A payload is stored,
  with the time of the store and the request's ttl, only after a successful network call
  made with caching enabled; on a hit the cached payload is returned and nothing changes.
\<close>

theorem cached_get_stores_successes_only:
  "(fst (cachedApiService_get env now1 now2 u config w) = Inl r \<longrightarrow>
      cache (snd (cachedApiService_get env now1 now2 u config w)) =
        (if cache_enabled config
         then snd (RequestCache_get now1 (cacheKey_of env u config) (cache w))
         else cache w)
      \<and> (cache (snd (cachedApiService_get env now1 now2 u config w)) k = cache w k
         \<or> cache (snd (cachedApiService_get env now1 now2 u config w)) k = None))
   \<and> (\<not> cache_enabled config \<longrightarrow>
      cache (snd (cachedApiService_get env now1 now2 u config w)) = cache w)
   \<and> (cache_enabled config
      \<and> \<not> truthy (fst (RequestCache_get now1 (cacheKey_of env u config) (cache w)))
      \<and> fst (cachedApiService_get env now1 now2 u config w) = Inr d \<longrightarrow>
      cache (snd (cachedApiService_get env now1 now2 u config w)) =
        RequestCache_set now2 (cacheKey_of env u config) d (ttl_of config)
          (snd (RequestCache_get now1 (cacheKey_of env u config) (cache w))))
   \<and> (cache_enabled config
      \<and> truthy (fst (RequestCache_get now1 (cacheKey_of env u config) (cache w))) \<longrightarrow>
      cachedApiService_get env now1 now2 u config w =
        (Inr (fst (RequestCache_get now1 (cacheKey_of env u config) (cache w))), w))"
proof (intro conjI impI)
  assume f: "fst (cachedApiService_get env now1 now2 u config w) = Inl r"
  show e: "cache (snd (cachedApiService_get env now1 now2 u config w)) =
        (if cache_enabled config
         then snd (RequestCache_get now1 (cacheKey_of env u config) (cache w))
         else cache w)"
    by (rule cachedApiService_get_failure[OF f])
  show "cache (snd (cachedApiService_get env now1 now2 u config w)) k = cache w k
         \<or> cache (snd (cachedApiService_get env now1 now2 u config w)) k = None"
    using RequestCache_get_shrinks[of now1 "cacheKey_of env u config" "cache w" k]
    by (simp add: e)
next
  assume "\<not> cache_enabled config"
  then show "cache (snd (cachedApiService_get env now1 now2 u config w)) = cache w"
    by (rule cachedApiService_get_disabled)
next
  assume "cache_enabled config
      \<and> \<not> truthy (fst (RequestCache_get now1 (cacheKey_of env u config) (cache w)))
      \<and> fst (cachedApiService_get env now1 now2 u config w) = Inr d"
  then show "cache (snd (cachedApiService_get env now1 now2 u config w)) =
        RequestCache_set now2 (cacheKey_of env u config) d (ttl_of config)
          (snd (RequestCache_get now1 (cacheKey_of env u config) (cache w)))"
    by (intro cachedApiService_get_stored) auto
next
  assume "cache_enabled config
      \<and> truthy (fst (RequestCache_get now1 (cacheKey_of env u config) (cache w)))"
  then show "cachedApiService_get env now1 now2 u config w =
        (Inr (fst (RequestCache_get now1 (cacheKey_of env u config) (cache w))), w)"
    by (intro cachedApiService_get_hit) auto
qed

lemma server_down_get:
  "fst (ApiService_get server_down u config w) =
     Inl (ApiError \<lparr>message = Some (JStr ''Network Error''), code = Some (JStr ''ERR_NETWORK''),
                    details = None\<rparr>)"
proof -
  let ?e = "\<lparr>err_config = None, err_response = None,
            err_message = Some (JStr ''Network Error''), err_code = Some (JStr ''ERR_NETWORK'')\<rparr>"
  have a: "adapter server_down h c = Inl ?e" for h c
    by (simp add: server_down_def)
  have v: "apiError_of ?e =
      \<lparr>message = Some (JStr ''Network Error''), code = Some (JStr ''ERR_NETWORK''), details = None\<rparr>"
    by (simp add: apiError_of_def server_payload_def js_or_def)
  show ?thesis
    unfolding ApiService_get_def
    by (subst api_rejected_plain[OF a]) (simp_all add: response_data_def v)
qed

lemma serving_get:
  "fst (ApiService_get serving u config w) = Inr (Some (JStr ''list''))"
proof -
  have a: "adapter serving h c = Inr \<lparr>status = 200, resp_data = Some (JStr ''list'')\<rparr>" for h c
    by (simp add: serving_def)
  show ?thesis
    unfolding ApiService_get_def
    by (subst api_fulfilled[OF a]) (simp add: response_data_def)
qed

lemma cachedApiService_get_miss:
  assumes "\<not> (cache_enabled config
              \<and> truthy (fst (RequestCache_get now1 (cacheKey_of env u config) (cache w))))"
  shows "fst (cachedApiService_get env now1 now2 u config w) =
           fst (ApiService_get env u config
                  (if cache_enabled config
                   then w\<lparr>cache := snd (RequestCache_get now1 (cacheKey_of env u config) (cache w))\<rparr>
                   else w))"
  using assms
  by (auto simp: cachedApiService_get_def Let_def case_prod_beta split: sum.splits prod.splits)

lemma stale_key:
  "cacheKey_of server_down ''/api/v1/documents/'' None = ''/api/v1/documents/_{}''"
  "cacheKey_of serving ''/api/v1/documents/'' None = ''/api/v1/documents/_{}''"
  "cacheKey_of server_down ''/api/v1/tags/'' None = ''/api/v1/tags/_{}''"
  by (simp_all add: cacheKey_of_def server_down_def serving_def or_empty_object_def)

lemma stale_lookup:
  "RequestCache_get 11 ''/api/v1/documents/_{}'' (cache stale_cache) = (Some JNull, Map.empty)"
  "RequestCache_get 11 ''/api/v1/tags/_{}'' (cache stale_cache) = (Some JNull, cache stale_cache)"
  by (simp_all add: stale_cache_def RequestCache_get_def RequestCache_set_def)

theorem cached_get_stores_successes_only_witness:
  "cache (snd (cachedApiService_get server_down 11 12 ''/api/v1/tags/'' None stale_cache)) = cache stale_cache
   \<and> cache (snd (cachedApiService_get serving 11 12 ''/api/v1/documents/'' (Some no_cache) stale_cache)) =
       cache stale_cache
   \<and> cache (snd (cachedApiService_get serving 11 12 ''/api/v1/documents/'' None stale_cache))
        ''/api/v1/documents/_{}'' =
       Some \<lparr>data = Some (JStr ''list''), timestamp = 12, ttl = 300000\<rparr>
   \<and> cachedApiService_get server_down 5 6 ''/api/v1/documents/'' None stale_cache =
       (Inr (Some (JStr ''v'')), stale_cache)"
proof -
  have en: "cache_enabled None" "\<not> cache_enabled (Some no_cache)"
    by (simp_all add: cache_enabled_def no_cache_def)
  have 1: "fst (cachedApiService_get server_down 11 12 ''/api/v1/tags/'' None stale_cache) =
      Inl (ApiError \<lparr>message = Some (JStr ''Network Error''), code = Some (JStr ''ERR_NETWORK''),
                    details = None\<rparr>)"
    by (subst cachedApiService_get_miss) (simp_all add: stale_key stale_lookup server_down_get)
  have 3: "cache_enabled None
      \<and> \<not> truthy (fst (RequestCache_get 11 (cacheKey_of serving ''/api/v1/documents/'' None) (cache stale_cache)))
      \<and> fst (cachedApiService_get serving 11 12 ''/api/v1/documents/'' None stale_cache) =
          Inr (Some (JStr ''list''))"
    by (subst cachedApiService_get_miss) (simp_all add: en stale_key stale_lookup serving_get)
  have 4: "RequestCache_get 5 ''/api/v1/documents/_{}'' (cache stale_cache) =
      (Some (JStr ''v''), cache stale_cache)"
    by (simp add: stale_cache_def RequestCache_get_def RequestCache_set_def)
  show ?thesis
    using cached_get_stores_successes_only[of server_down 5 6 "''/api/v1/documents/''" None stale_cache] 4
      cached_get_stores_successes_only[of server_down 11 12 "''/api/v1/tags/''" None stale_cache
        "ApiError \<lparr>message = Some (JStr ''Network Error''), code = Some (JStr ''ERR_NETWORK''),
                    details = None\<rparr>" "''/api/v1/tags/_{}''"]
      cached_get_stores_successes_only[of serving 11 12 "''/api/v1/documents/''" "Some no_cache" stale_cache]
      cached_get_stores_successes_only[of serving 11 12 "''/api/v1/documents/''" None stale_cache _ _
        "Some (JStr ''list'')"] 1 3 en
    by (simp add: stale_key stale_lookup RequestCache_set_def ttl_of_def default_ttl_def)
qed

text \<open>
  C10 as stated says the cache is unchanged for the key when the network call throws.  An
  expired entry of that key is evicted by the lookup before the call, so the key changes
  from an entry to nothing.
\<close>

theorem cached_get_failure_evicts:
  "cache stale_cache ''/api/v1/documents/_{}'' =
     Some \<lparr>data = Some (JStr ''v''), timestamp = 0, ttl = 10\<rparr>
   \<and> fst (cachedApiService_get server_down 11 12 ''/api/v1/documents/'' None stale_cache) =
       Inl (ApiError \<lparr>message = Some (JStr ''Network Error''), code = Some (JStr ''ERR_NETWORK''),
                      details = None\<rparr>)
   \<and> cache (snd (cachedApiService_get server_down 11 12 ''/api/v1/documents/'' None stale_cache))
       ''/api/v1/documents/_{}'' = None"
proof -
  have en: "cache_enabled None"
    by (simp add: cache_enabled_def)
  have 1: "fst (cachedApiService_get server_down 11 12 ''/api/v1/documents/'' None stale_cache) =
      Inl (ApiError \<lparr>message = Some (JStr ''Network Error''), code = Some (JStr ''ERR_NETWORK''),
                    details = None\<rparr>)"
    by (subst cachedApiService_get_miss) (simp_all add: stale_key stale_lookup server_down_get)
  have 2: "cache (snd (cachedApiService_get server_down 11 12 ''/api/v1/documents/'' None stale_cache)) =
      snd (RequestCache_get 11 (cacheKey_of server_down ''/api/v1/documents/'' None) (cache stale_cache))"
    using cachedApiService_get_failure[OF 1] en by simp
  show ?thesis
    using 1 2 by (simp add: stale_key stale_lookup) (simp add: stale_cache_def RequestCache_set_def)
qed

end
